theory Spec2Isabelle
  imports Main "HOL-Library.AList" "HOL-Library.Char_ord" "HOL-Library.List_Lexorder"
begin

unbundle bit_operations_syntax

section \<open>Python values, dictionaries and exceptions\<close>

text \<open>
  The configuration descriptors of \<^verbatim>\<open>chipsec/chipset.py\<close> are Python dictionaries taken
  from XML attributes: string keys, string values, the nested dictionary stored under
  \<^verbatim>\<open>'FIELDS'\<close>, and the integers that \<^verbatim>\<open>read_register_dict\<close> writes back. A dictionary
  is an association list: a lookup finds the first pair, a store through
  \<open>AList.update\<close> replaces in place or appends, as a Python dictionary keeps insertion
  order.
\<close>

datatype pyval = Str string | Num int | Dict "(string \<times> pyval) list"

type_synonym dict = "(string \<times> pyval) list"

datatype error =
    KeyError string
  | ValueError
  | TypeError
  | IndexError
  | RegisterTypeNotFoundError pyval
  | UnknownChipsetError
  | DeviceNotFoundError string
  | HalError

definition has_key :: "(string \<times> 'v) list \<Rightarrow> string \<Rightarrow> bool" where
  "has_key d k = (map_of d k \<noteq> None)"

text \<open>\<^verbatim>\<open>d[k]\<close> on a dictionary: \<^verbatim>\<open>KeyError\<close> when the key is absent.\<close>

definition getitem :: "(string \<times> 'v) list \<Rightarrow> string \<Rightarrow> error + 'v" where
  "getitem d k = (case map_of d k of None \<Rightarrow> Inl (KeyError k) | Some v \<Rightarrow> Inr v)"

text \<open>\<^verbatim>\<open>v[k]\<close> on any value with a string key: only a dictionary can be subscripted so.\<close>

fun subscript :: "pyval \<Rightarrow> string \<Rightarrow> error + pyval" where
  "subscript (Dict d) k = getitem d k"
| "subscript (Str s) k = Inl TypeError"
| "subscript (Num n) k = Inl TypeError"

text \<open>\<^verbatim>\<open>k in d\<close> where \<open>k\<close> is a value: a dictionary is unhashable, a number is no key here.\<close>

fun contains :: "(string \<times> 'v) list \<Rightarrow> pyval \<Rightarrow> error + bool" where
  "contains d (Str k) = Inr (has_key d k)"
| "contains d (Num n) = Inr False"
| "contains d (Dict x) = Inl TypeError"

text \<open>Python truth of a value: the empty string, zero and the empty dictionary are false.\<close>

fun truthy :: "pyval \<Rightarrow> bool" where
  "truthy (Str s) = (s \<noteq> [])"
| "truthy (Num n) = (n \<noteq> 0)"
| "truthy (Dict d) = (d \<noteq> [])"

subsection \<open>The builtins \<^verbatim>\<open>int\<close>, \<^verbatim>\<open>hex\<close>, \<^verbatim>\<open>str.lower\<close>, \<^verbatim>\<open>str.split\<close>\<close>

definition is_space :: "char \<Rightarrow> bool" where
  "is_space c = (let n = (of_char c :: nat) in n = 32 \<or> (9 \<le> n \<and> n \<le> 13) \<or> (28 \<le> n \<and> n \<le> 31))"

definition strip :: "string \<Rightarrow> string" where
  "strip s = rev (dropWhile is_space (rev (dropWhile is_space s)))"

definition digit_of :: "char \<Rightarrow> nat option" where
  "digit_of c = (let n = (of_char c :: nat) in
     if 48 \<le> n \<and> n \<le> 57 then Some (n - 48)
     else if 97 \<le> n \<and> n \<le> 122 then Some (n - 87)
     else if 65 \<le> n \<and> n \<le> 90 then Some (n - 55)
     else None)"

text \<open>
  The digits of a literal in base \<open>b\<close>: one underscore may stand between two digits,
  none at either end. The flag says that the character before was a digit.
\<close>

fun digits_val :: "nat \<Rightarrow> nat \<Rightarrow> bool \<Rightarrow> string \<Rightarrow> nat option" where
  "digits_val b acc after_digit [] = (if after_digit then Some acc else None)"
| "digits_val b acc after_digit (c # cs) =
     (if c = CHR ''_'' then (if after_digit then digits_val b acc False cs else None)
      else (case digit_of c of
              None \<Rightarrow> None
            | Some d \<Rightarrow> if d < b then digits_val b (acc * b + d) True cs else None))"

text \<open>
  \<^verbatim>\<open>int(s, base)\<close> on a string of ASCII characters, for base 10 and 16: surrounding white
  space, an optional sign, for base 16 an optional \<^verbatim>\<open>0x\<close> (after which one underscore
  may stand), then the digits. \<open>None\<close> is the \<^verbatim>\<open>ValueError\<close> of every other string.
\<close>

definition parse_int :: "nat \<Rightarrow> string \<Rightarrow> int option" where
  "parse_int b s =
     (let t = strip s;
          neg = (take 1 t = ''-'');
          u = (if take 1 t = ''-'' \<or> take 1 t = ''+'' then drop 1 t else t);
          prefixed = (b = 16 \<and> (take 2 u = ''0x'' \<or> take 2 u = ''0X''));
          v = (if prefixed then drop 2 u else u);
          w = (if prefixed \<and> take 1 v = ''_'' then drop 1 v else v)
      in map_option (\<lambda>n. if neg then - int n else int n) (digits_val b 0 False w))"

text \<open>\<^verbatim>\<open>int(v)\<close>: a number is returned as it is, a string is read in base 10.\<close>

fun py_int :: "pyval \<Rightarrow> error + int" where
  "py_int (Num n) = Inr n"
| "py_int (Str s) = (case parse_int 10 s of None \<Rightarrow> Inl ValueError | Some n \<Rightarrow> Inr n)"
| "py_int (Dict d) = Inl TypeError"

text \<open>\<^verbatim>\<open>int(v, 16)\<close>: with an explicit base only a string is accepted.\<close>

fun py_int16 :: "pyval \<Rightarrow> error + int" where
  "py_int16 (Str s) = (case parse_int 16 s of None \<Rightarrow> Inl ValueError | Some n \<Rightarrow> Inr n)"
| "py_int16 (Num n) = Inl TypeError"
| "py_int16 (Dict d) = Inl TypeError"

definition hexchar :: "nat \<Rightarrow> char" where
  "hexchar d = ''0123456789abcdef'' ! d"

function hex_digits :: "nat \<Rightarrow> string" where
  "hex_digits n = (if n < 16 then [hexchar n] else hex_digits (n div 16) @ [hexchar (n mod 16)])"
  by pat_completeness auto
termination
  by (relation "measure id") auto

definition py_hex :: "int \<Rightarrow> string" where
  "py_hex n = (if n < 0 then ''-0x'' @ hex_digits (nat (- n)) else ''0x'' @ hex_digits (nat n))"

definition lower :: "string \<Rightarrow> string" where
  "lower s = map (\<lambda>c. let n = (of_char c :: nat) in
                       if 65 \<le> n \<and> n \<le> 90 then char_of (n + 32) else c) s"

text \<open>\<^verbatim>\<open>s.split(sep)\<close> for a separator of one character: never the empty list.\<close>

fun split_on :: "char \<Rightarrow> string \<Rightarrow> string list" where
  "split_on sep [] = [[]]"
| "split_on sep (c # cs) =
     (if c = sep then [] # split_on sep cs
      else (case split_on sep cs of
              [] \<Rightarrow> [[c]]
            | w # ws \<Rightarrow> (c # w) # ws))"

text \<open>Shifts raise \<^verbatim>\<open>ValueError\<close> on a negative count; Python integers are unbounded.\<close>

definition py_lshift :: "int \<Rightarrow> int \<Rightarrow> error + int" where
  "py_lshift a n = (if n < 0 then Inl ValueError else Inr (push_bit (nat n) a))"

definition py_rshift :: "int \<Rightarrow> int \<Rightarrow> error + int" where
  "py_rshift a n = (if n < 0 then Inl ValueError else Inr (drop_bit (nat n) a))"

text \<open>\<^verbatim>\<open>xs[i]\<close> on a list: a negative index counts from the end.\<close>

definition py_index :: "'a list \<Rightarrow> int \<Rightarrow> error + 'a" where
  "py_index xs i =
     (if 0 \<le> i \<and> i < int (length xs) then Inr (xs ! nat i)
      else if i < 0 \<and> - int (length xs) \<le> i then Inr (xs ! nat (int (length xs) + i))
      else Inl IndexError)"

section \<open>The configuration store, the session and the platform access layer\<close>

text \<open>
  \<^verbatim>\<open>Cfg\<close> holds the category dictionaries. The entries of every category but the
  registers are XML attribute dictionaries (strings to strings); a register descriptor
  also carries the field dictionary under \<^verbatim>\<open>'FIELDS'\<close> and whatever register access
  writes into it. \<^verbatim>\<open>BUS\<close> maps a device name to the list of bus numbers found for it,
  each the \<^verbatim>\<open>hex\<close> string of the number.
\<close>

type_synonym attrib = "(string \<times> string) list"

record Cfg =
  CONFIG_PCI :: "(string \<times> attrib) list"
  MMIO_BARS :: "(string \<times> attrib) list"
  IO_BARS :: "(string \<times> attrib) list"
  MEMORY_RANGES :: "(string \<times> attrib) list"
  REGISTERS :: "(string \<times> dict) list"
  CONTROLS :: "(string \<times> attrib) list"
  BUS :: "(string \<times> string list) list"
  XML_CONFIG_LOADED :: bool

text \<open>
  The calls into the hardware abstraction layer (\<^verbatim>\<open>self.pci\<close>, \<^verbatim>\<open>self.mmio\<close>,
  \<^verbatim>\<open>self.msr\<close>, \<^verbatim>\<open>self.io\<close>, \<^verbatim>\<open>self.iobar\<close>, \<^verbatim>\<open>self.msgbus\<close>), one constructor per
  method, with the arguments in the order of the call.
\<close>

datatype access =
    pci_read_byte int int int int
  | pci_read_word int int int int
  | pci_read_dword int int int int
  | pci_write_byte int int int int int
  | pci_write_word int int int int int
  | pci_write_dword int int int int int
  | read_mmcfg_reg int int int int int
  | write_mmcfg_reg int int int int int int
  | read_MMIO_BAR_reg pyval int int
  | write_MMIO_BAR_reg pyval int int int
  | read_msr int int
  | write_msr int int int int
  | read_port int int
  | write_port int int int
  | read_IO_BAR_reg pyval int int
  | write_IO_BAR_reg pyval int int int
  | msgbus_reg_read int int
  | msgbus_reg_write int int int
  | mm_msgbus_reg_read int int
  | mm_msgbus_reg_write int int int
  | enumerate_devices

text \<open>
  The layer itself is not part of this module. It is a parameter: what a call returns,
  or the exception it raises, as a function of the calls made before it. Every call is
  appended to the log of the session, so that the order of the hardware transactions can
  be stated.
\<close>

record transport =
  hal_read :: "access list \<Rightarrow> access \<Rightarrow> error + int"
  hal_read_msr :: "access list \<Rightarrow> access \<Rightarrow> error + int \<times> int"
  hal_write :: "access list \<Rightarrow> access \<Rightarrow> error option"
  hal_enumerate :: "access list \<Rightarrow> error + (int \<times> int \<times> int \<times> int \<times> int) list"

record Chipset =
  vid :: int
  did :: int
  rid :: int
  code :: string
  longname :: string
  id' :: int
  pch_vid :: int
  pch_did :: int
  pch_rid :: int
  pch_code :: string
  pch_longname :: string
  pch_id :: int
  Cfg :: Cfg
  hal_log :: "access list"

text \<open>
  A method of \<^verbatim>\<open>Chipset\<close> takes the session and returns its result, or the exception
  it raised, with the session as it left it.
\<close>

type_synonym 'a M = "Chipset \<Rightarrow> (error + 'a) \<times> Chipset"

definition m_return :: "'a \<Rightarrow> 'a M" where
  "m_return x s = (Inr x, s)"

definition m_lift :: "error + 'a \<Rightarrow> 'a M" where
  "m_lift r s = (r, s)"

definition m_bind :: "'a M \<Rightarrow> ('a \<Rightarrow> 'b M) \<Rightarrow> 'b M" where
  "m_bind m f s = (case m s of (Inl e, s') \<Rightarrow> (Inl e, s') | (Inr x, s') \<Rightarrow> f x s')"

definition hal_rd :: "transport \<Rightarrow> access \<Rightarrow> int M" where
  "hal_rd T a s = (hal_read T (hal_log s) a, s\<lparr>hal_log := hal_log s @ [a]\<rparr>)"

definition hal_rd_msr :: "transport \<Rightarrow> access \<Rightarrow> (int \<times> int) M" where
  "hal_rd_msr T a s = (hal_read_msr T (hal_log s) a, s\<lparr>hal_log := hal_log s @ [a]\<rparr>)"

definition hal_wr :: "transport \<Rightarrow> access \<Rightarrow> unit M" where
  "hal_wr T a s =
     ((case hal_write T (hal_log s) a of Some e \<Rightarrow> Inl e | None \<Rightarrow> Inr ()),
      s\<lparr>hal_log := hal_log s @ [a]\<rparr>)"

section \<open>Register access\<close>

text \<open>\<^verbatim>\<open>self.Cfg.REGISTERS[reg_name]\<close>, read from the store of the session.\<close>

definition reg_lookup :: "string \<Rightarrow> dict M" where
  "reg_lookup reg_name s = (getitem (REGISTERS (Cfg s)) reg_name, s)"

text \<open>
  A register descriptor is handed around by reference: \<^verbatim>\<open>reg_def\<close> in
  \<^verbatim>\<open>get_register_def\<close> is the dictionary stored under \<^verbatim>\<open>reg_name\<close>, and a change
  made through it is a change of the store.
\<close>

definition regs_upd :: "string \<Rightarrow> (dict \<Rightarrow> dict) \<Rightarrow> Chipset \<Rightarrow> Chipset" where
  "regs_upd reg_name U s =
     s\<lparr>Cfg := (Cfg s)\<lparr>REGISTERS := AList.map_entry reg_name U (REGISTERS (Cfg s))\<rparr>\<rparr>"

text \<open>\<^verbatim>\<open>reg_def[k] = v\<close>.\<close>

definition reg_setitem :: "string \<Rightarrow> string \<Rightarrow> pyval \<Rightarrow> unit M" where
  "reg_setitem reg_name k v s = (Inr (), regs_upd reg_name (AList.update k v) s)"

text \<open>The body of \<^verbatim>\<open>if dev_name in self.Cfg.BUS\<close> in \<^verbatim>\<open>get_register_def\<close>.\<close>

definition bind_bus :: "string \<Rightarrow> string \<Rightarrow> int \<Rightarrow> unit M" where
  "bind_bus reg_name dev_name bus_index s =
     (case map_of (BUS (Cfg s)) dev_name of
        None \<Rightarrow> (Inr (), s)
      | Some buses \<Rightarrow>
          if bus_index < int (length buses) then
            m_bind (m_lift (py_index buses bus_index))
              (\<lambda>b. reg_setitem reg_name ''bus'' (Str b)) s
          else (Inr (), s))"

text \<open>The body of \<^verbatim>\<open>if dev_name in self.Cfg.CONFIG_PCI\<close> in \<^verbatim>\<open>get_register_def\<close>.\<close>

definition bind_device :: "string \<Rightarrow> string \<Rightarrow> int \<Rightarrow> unit M" where
  "bind_device reg_name dev_name bus_index s =
     (case map_of (CONFIG_PCI (Cfg s)) dev_name of
        None \<Rightarrow> (Inr (), s)
      | Some dev \<Rightarrow>
          m_bind (m_lift (getitem dev ''bus'')) (\<lambda>b.
          m_bind (reg_setitem reg_name ''bus'' (Str b)) (\<lambda>_.
          m_bind (m_lift (getitem dev ''dev'')) (\<lambda>d.
          m_bind (reg_setitem reg_name ''dev'' (Str d)) (\<lambda>_.
          m_bind (m_lift (getitem dev ''fun'')) (\<lambda>f.
          m_bind (reg_setitem reg_name ''fun'' (Str f)) (\<lambda>_.
          bind_bus reg_name dev_name bus_index)))))) s)"

definition get_register_def :: "string \<Rightarrow> int \<Rightarrow> dict M" where
  "get_register_def reg_name bus_index =
     m_bind (reg_lookup reg_name) (\<lambda>reg_def.
     m_bind (m_lift (getitem reg_def ''type'')) (\<lambda>ty.
     m_bind
       (if (ty = Str ''pcicfg'' \<or> ty = Str ''mmcfg'') \<and> has_key reg_def ''device'' then
          m_bind (m_lift (getitem reg_def ''device'')) (\<lambda>dev_name.
            (case dev_name of
               Str d \<Rightarrow> bind_device reg_name d bus_index
             | Num n \<Rightarrow> m_return ()
             | Dict x \<Rightarrow> m_lift (Inl TypeError)))
        else m_return ())
       (\<lambda>_. reg_lookup reg_name)))"

text \<open>\<^verbatim>\<open>int(reg[k], 16)\<close>.\<close>

definition attr16 :: "dict \<Rightarrow> string \<Rightarrow> error + int" where
  "attr16 reg k = (case getitem reg k of Inl e \<Rightarrow> Inl e | Inr v \<Rightarrow> py_int16 v)"

definition read_register :: "transport \<Rightarrow> string \<Rightarrow> int \<Rightarrow> int \<Rightarrow> int M" where
  "read_register T reg_name cpu_thread bus_index =
     m_bind (get_register_def reg_name bus_index) (\<lambda>reg.
     m_bind (m_lift (getitem reg ''type'')) (\<lambda>rtype.
       if rtype = Str ''pcicfg'' then
         m_bind (m_lift (attr16 reg ''bus'')) (\<lambda>b.
         m_bind (m_lift (attr16 reg ''dev'')) (\<lambda>d.
         m_bind (m_lift (attr16 reg ''fun'')) (\<lambda>f.
         m_bind (m_lift (attr16 reg ''offset'')) (\<lambda>off.
         m_bind (m_lift (attr16 reg ''size'')) (\<lambda>size.
           if size = 1 then hal_rd T (pci_read_byte b d f off)
           else if size = 2 then hal_rd T (pci_read_word b d f off)
           else if size = 4 then hal_rd T (pci_read_dword b d f off)
           else if size = 8 then
             m_bind (hal_rd T (pci_read_dword b d f (off + 4))) (\<lambda>hi.
             m_bind (hal_rd T (pci_read_dword b d f off)) (\<lambda>lo.
             m_return (push_bit 32 hi OR lo)))
           else m_return 0)))))
       else if rtype = Str ''mmcfg'' then
         m_bind (m_lift (attr16 reg ''bus'')) (\<lambda>b.
         m_bind (m_lift (attr16 reg ''dev'')) (\<lambda>d.
         m_bind (m_lift (attr16 reg ''fun'')) (\<lambda>f.
         m_bind (m_lift (attr16 reg ''offset'')) (\<lambda>off.
         m_bind (m_lift (attr16 reg ''size'')) (\<lambda>size.
           hal_rd T (read_mmcfg_reg b d f off size))))))
       else if rtype = Str ''mmio'' then
         m_bind (m_lift (getitem reg ''bar'')) (\<lambda>bar.
         m_bind (m_lift (attr16 reg ''offset'')) (\<lambda>off.
         m_bind (m_lift (attr16 reg ''size'')) (\<lambda>size.
           hal_rd T (read_MMIO_BAR_reg bar off size))))
       else if rtype = Str ''msr'' then
         m_bind (m_lift (attr16 reg ''msr'')) (\<lambda>m.
         m_bind (hal_rd_msr T (read_msr cpu_thread m)) (\<lambda>(eax, edx).
           m_return (push_bit 32 edx OR eax)))
       else if rtype = Str ''io'' then
         m_bind (m_lift (attr16 reg ''port'')) (\<lambda>port.
         m_bind (m_lift (attr16 reg ''size'')) (\<lambda>size.
           hal_rd T (read_port port size)))
       else if rtype = Str ''iobar'' then
         m_bind (m_lift (getitem reg ''bar'')) (\<lambda>bar.
         m_bind (m_lift (attr16 reg ''offset'')) (\<lambda>off.
         m_bind (m_lift (attr16 reg ''size'')) (\<lambda>size.
           hal_rd T (read_IO_BAR_reg bar off size))))
       else if rtype = Str ''msgbus'' then
         m_bind (m_lift (attr16 reg ''port'')) (\<lambda>port.
         m_bind (m_lift (attr16 reg ''offset'')) (\<lambda>off.
           hal_rd T (msgbus_reg_read port off)))
       else if rtype = Str ''mm_msgbus'' then
         m_bind (m_lift (attr16 reg ''port'')) (\<lambda>port.
         m_bind (m_lift (attr16 reg ''offset'')) (\<lambda>off.
           hal_rd T (mm_msgbus_reg_read port off)))
       else m_lift (Inl (RegisterTypeNotFoundError rtype))))"

definition write_register :: "transport \<Rightarrow> string \<Rightarrow> int \<Rightarrow> int \<Rightarrow> int \<Rightarrow> unit M" where
  "write_register T reg_name reg_value cpu_thread bus_index =
     m_bind (get_register_def reg_name bus_index) (\<lambda>reg.
     m_bind (m_lift (getitem reg ''type'')) (\<lambda>rtype.
       if rtype = Str ''pcicfg'' then
         m_bind (m_lift (attr16 reg ''bus'')) (\<lambda>b.
         m_bind (m_lift (attr16 reg ''dev'')) (\<lambda>d.
         m_bind (m_lift (attr16 reg ''fun'')) (\<lambda>f.
         m_bind (m_lift (attr16 reg ''offset'')) (\<lambda>off.
         m_bind (m_lift (attr16 reg ''size'')) (\<lambda>size.
           if size = 1 then hal_wr T (pci_write_byte b d f off reg_value)
           else if size = 2 then hal_wr T (pci_write_word b d f off reg_value)
           else if size = 4 then hal_wr T (pci_write_dword b d f off reg_value)
           else if size = 8 then
             m_bind (hal_wr T (pci_write_dword b d f off (reg_value AND 0xFFFFFFFF))) (\<lambda>_.
             hal_wr T (pci_write_dword b d f (off + 4) (drop_bit 32 reg_value AND 0xFFFFFFFF)))
           else m_return ())))))
       else if rtype = Str ''mmcfg'' then
         m_bind (m_lift (attr16 reg ''bus'')) (\<lambda>b.
         m_bind (m_lift (attr16 reg ''dev'')) (\<lambda>d.
         m_bind (m_lift (attr16 reg ''fun'')) (\<lambda>f.
         m_bind (m_lift (attr16 reg ''offset'')) (\<lambda>off.
         m_bind (m_lift (attr16 reg ''size'')) (\<lambda>size.
           hal_wr T (write_mmcfg_reg b d f off size reg_value))))))
       else if rtype = Str ''mmio'' then
         m_bind (m_lift (getitem reg ''bar'')) (\<lambda>bar.
         m_bind (m_lift (attr16 reg ''offset'')) (\<lambda>off.
         m_bind (m_lift (attr16 reg ''size'')) (\<lambda>size.
           hal_wr T (write_MMIO_BAR_reg bar off reg_value size))))
       else if rtype = Str ''msr'' then
         m_bind (m_lift (attr16 reg ''msr'')) (\<lambda>m.
           hal_wr T (write_msr cpu_thread m (reg_value AND 0xFFFFFFFF)
                       (drop_bit 32 reg_value AND 0xFFFFFFFF)))
       else if rtype = Str ''io'' then
         m_bind (m_lift (attr16 reg ''port'')) (\<lambda>port.
         m_bind (m_lift (attr16 reg ''size'')) (\<lambda>size.
           hal_wr T (write_port port reg_value size)))
       else if rtype = Str ''iobar'' then
         m_bind (m_lift (getitem reg ''bar'')) (\<lambda>bar.
         m_bind (m_lift (attr16 reg ''offset'')) (\<lambda>off.
         m_bind (m_lift (attr16 reg ''size'')) (\<lambda>size.
           hal_wr T (write_IO_BAR_reg bar off size reg_value))))
       else if rtype = Str ''msgbus'' then
         m_bind (m_lift (attr16 reg ''port'')) (\<lambda>port.
         m_bind (m_lift (attr16 reg ''offset'')) (\<lambda>off.
           hal_wr T (msgbus_reg_write port off reg_value)))
       else if rtype = Str ''mm_msgbus'' then
         m_bind (m_lift (attr16 reg ''port'')) (\<lambda>port.
         m_bind (m_lift (attr16 reg ''offset'')) (\<lambda>off.
           hal_wr T (mm_msgbus_reg_write port off reg_value)))
       else m_lift (Inl (RegisterTypeNotFoundError rtype))))"

text \<open>\<^verbatim>\<open>self.get_register_def(reg_name)['FIELDS'][field_name]\<close>, then the bit and the mask.\<close>

definition field_attrs :: "string \<Rightarrow> string \<Rightarrow> pyval M" where
  "field_attrs reg_name field_name =
     m_bind (get_register_def reg_name 0) (\<lambda>reg.
     m_bind (m_lift (getitem reg ''FIELDS'')) (\<lambda>fields.
     m_lift (subscript fields field_name)))"

definition field_bit_mask :: "pyval \<Rightarrow> error + int \<times> int" where
  "field_bit_mask fa =
     (case subscript fa ''bit'' of Inl e \<Rightarrow> Inl e | Inr vb \<Rightarrow>
     (case py_int vb of Inl e \<Rightarrow> Inl e | Inr field_bit \<Rightarrow>
     (case subscript fa ''size'' of Inl e \<Rightarrow> Inl e | Inr vs \<Rightarrow>
     (case py_int vs of Inl e \<Rightarrow> Inl e | Inr n \<Rightarrow>
     (case py_lshift 1 n of Inl e \<Rightarrow> Inl e | Inr p \<Rightarrow> Inr (field_bit, p - 1))))))"

definition get_register_field :: "string \<Rightarrow> int \<Rightarrow> string \<Rightarrow> bool \<Rightarrow> int M" where
  "get_register_field reg_name reg_value field_name preserve_field_position =
     m_bind (field_attrs reg_name field_name) (\<lambda>fa.
     m_bind (m_lift (field_bit_mask fa)) (\<lambda>(field_bit, field_mask).
       if preserve_field_position then
         m_bind (m_lift (py_lshift field_mask field_bit)) (\<lambda>m.
         m_return (reg_value AND m))
       else
         m_bind (m_lift (py_rshift reg_value field_bit)) (\<lambda>r.
         m_return (r AND field_mask))))"

definition set_register_field :: "string \<Rightarrow> int \<Rightarrow> string \<Rightarrow> int \<Rightarrow> bool \<Rightarrow> int M" where
  "set_register_field reg_name reg_value field_name field_value preserve_field_position =
     m_bind (field_attrs reg_name field_name) (\<lambda>fa.
     m_bind (m_lift (field_bit_mask fa)) (\<lambda>(field_bit, field_mask).
     m_bind (m_lift (py_lshift field_mask field_bit)) (\<lambda>m.
       if preserve_field_position then
         m_bind (m_lift (py_lshift field_mask field_bit)) (\<lambda>m'.
         m_return ((reg_value AND NOT m) OR (field_value AND m')))
       else
         m_bind (m_lift (py_lshift (field_value AND field_mask) field_bit)) (\<lambda>v.
         m_return ((reg_value AND NOT m) OR v)))))"

definition read_register_field :: "transport \<Rightarrow> string \<Rightarrow> string \<Rightarrow> bool \<Rightarrow> int \<Rightarrow> int M" where
  "read_register_field T reg_name field_name preserve_field_position cpu_thread =
     m_bind (read_register T reg_name cpu_thread 0) (\<lambda>reg_value.
     get_register_field reg_name reg_value field_name preserve_field_position)"

definition write_register_field ::
  "transport \<Rightarrow> string \<Rightarrow> string \<Rightarrow> int \<Rightarrow> bool \<Rightarrow> int \<Rightarrow> unit M" where
  "write_register_field T reg_name field_name field_value preserve_field_position cpu_thread =
     m_bind (read_register T reg_name cpu_thread 0) (\<lambda>reg_value.
     m_bind (set_register_field reg_name reg_value field_name field_value
               preserve_field_position) (\<lambda>reg_value_new.
     write_register T reg_name reg_value_new cpu_thread 0))"

text \<open>
  \<^verbatim>\<open>get_control(control_name, cpu_thread)\<close> with \<^verbatim>\<open>with_print\<close> left at 0. The source
  calls \<^verbatim>\<open>self.read_register(reg)\<close>: the thread index is not handed on.
\<close>

definition get_control :: "transport \<Rightarrow> string \<Rightarrow> int \<Rightarrow> int M" where
  "get_control T control_name cpu_thread =
     m_bind (\<lambda>s. (getitem (CONTROLS (Cfg s)) control_name, s)) (\<lambda>control.
     m_bind (m_lift (getitem control ''register'')) (\<lambda>reg.
     m_bind (m_lift (getitem control ''field'')) (\<lambda>field.
     m_bind (read_register T reg 0 0) (\<lambda>reg_data.
     get_register_field reg reg_data field False))))"

text \<open>
  \<^verbatim>\<open>set_control\<close> calls
  \<^verbatim>\<open>self.write_register_field(reg, field, control_value, cpu_thread)\<close>: the fourth
  positional parameter of \<^verbatim>\<open>write_register_field\<close> is \<^verbatim>\<open>preserve_field_position\<close>, so
  the thread index arrives there (true when not 0) and \<^verbatim>\<open>cpu_thread\<close> keeps its
  default 0.
\<close>

definition set_control :: "transport \<Rightarrow> string \<Rightarrow> int \<Rightarrow> int \<Rightarrow> unit M" where
  "set_control T control_name control_value cpu_thread =
     m_bind (\<lambda>s. (getitem (CONTROLS (Cfg s)) control_name, s)) (\<lambda>control.
     m_bind (m_lift (getitem control ''register'')) (\<lambda>reg.
     m_bind (m_lift (getitem control ''field'')) (\<lambda>field.
     write_register_field T reg field control_value (cpu_thread \<noteq> 0) 0)))"

text \<open>The address-space kinds of \<^verbatim>\<open>class RegisterType\<close>.\<close>

definition RegisterType :: "string list" where
  "RegisterType =
     [''pcicfg'', ''mmcfg'', ''mmio'', ''msr'', ''io'', ''iobar'', ''msgbus'', ''mm_msgbus'']"

section \<open>Sessions for the examples\<close>

text \<open>
  Modelled from the spec: \<^verbatim>\<open>Cfg()\<close> of \<^verbatim>\<open>chipsec.cfg.common\<close> is not among the sources;
  the store is "created empty at session start".
\<close>

definition Cfg_init :: Cfg where
  "Cfg_init = \<lparr>CONFIG_PCI = [], MMIO_BARS = [], IO_BARS = [], MEMORY_RANGES = [],
     REGISTERS = [], CONTROLS = [], BUS = [], XML_CONFIG_LOADED = False\<rparr>"

text \<open>\<^verbatim>\<open>Chipset.__init__\<close>: the identity is unknown until \<^verbatim>\<open>init\<close> runs.\<close>

definition Chipset_init :: Chipset where
  "Chipset_init = \<lparr>vid = 0xFFFF, did = 0xFFFF, rid = 0xFF, code = [],
     longname = ''Unrecognized Platform'', id' = 0,
     pch_vid = 0xFFFF, pch_did = 0xFFFF, pch_rid = 0xFF, pch_code = [],
     pch_longname = ''Unrecognized PCH'', pch_id = 0,
     Cfg = Cfg_init, hal_log = []\<rparr>"

text \<open>A platform access layer whose reads return 0 and whose calls never fail.\<close>

definition quiet_transport :: transport where
  "quiet_transport = \<lparr>hal_read = (\<lambda>h a. Inr 0), hal_read_msr = (\<lambda>h a. Inr (0, 0)),
     hal_write = (\<lambda>h a. None), hal_enumerate = (\<lambda>h. Inr [])\<rparr>"

definition with_registers :: "(string \<times> dict) list \<Rightarrow> Chipset" where
  "with_registers rs = Chipset_init\<lparr>Cfg := Cfg_init\<lparr>REGISTERS := rs\<rparr>\<rparr>"


subsection \<open>\<^verbatim>\<open>read_register_dict\<close>\<close>

text \<open>\<^verbatim>\<open>for i in range(field_size): field_mask = (field_mask << 1) | 1\<close>.\<close>

fun mask_loop :: "nat \<Rightarrow> int \<Rightarrow> int" where
  "mask_loop 0 field_mask = field_mask"
| "mask_loop (Suc k) field_mask = mask_loop k (push_bit 1 field_mask OR 1)"

text \<open>\<^verbatim>\<open>reg_def['FIELDS'][f][k]\<close>, read through the reference into the store.\<close>

definition field_getitem :: "string \<Rightarrow> string \<Rightarrow> string \<Rightarrow> pyval M" where
  "field_getitem reg_name f k =
     m_bind (reg_lookup reg_name) (\<lambda>reg_def.
     m_bind (m_lift (getitem reg_def ''FIELDS'')) (\<lambda>fields.
     m_bind (m_lift (subscript fields f)) (\<lambda>fa.
     m_lift (subscript fa k))))"

text \<open>\<^verbatim>\<open>result['FIELDS'][f][k] = v\<close>: \<^verbatim>\<open>result\<close> is the stored descriptor.\<close>

definition fields_upd :: "string \<Rightarrow> string \<Rightarrow> pyval \<Rightarrow> dict \<Rightarrow> dict" where
  "fields_upd f k v =
     AList.map_entry ''FIELDS'' (\<lambda>fields.
       case fields of
         Dict fl \<Rightarrow> Dict (AList.map_entry f
                     (\<lambda>fa. case fa of Dict a \<Rightarrow> Dict (AList.update k v a) | Str x \<Rightarrow> fa | Num x \<Rightarrow> fa) fl)
       | Str x \<Rightarrow> fields
       | Num x \<Rightarrow> fields)"

definition field_setitem :: "string \<Rightarrow> string \<Rightarrow> string \<Rightarrow> pyval \<Rightarrow> unit M" where
  "field_setitem reg_name f k v s = (Inr (), regs_upd reg_name (fields_upd f k v) s)"

text \<open>The body of \<^verbatim>\<open>for f in reg_def['FIELDS']\<close>.\<close>

definition dict_field_step :: "string \<Rightarrow> int \<Rightarrow> string \<Rightarrow> unit M" where
  "dict_field_step reg_name reg_value f =
     m_bind (field_getitem reg_name f ''bit'') (\<lambda>vb.
     m_bind (m_lift (py_int vb)) (\<lambda>field_bit.
     m_bind (field_setitem reg_name f ''bit'' (Num field_bit)) (\<lambda>_.
     m_bind (field_getitem reg_name f ''size'') (\<lambda>vs.
     m_bind (m_lift (py_int vs)) (\<lambda>field_size.
     m_bind (field_setitem reg_name f ''size'' (Num field_size)) (\<lambda>_.
     m_bind (m_lift (py_rshift reg_value field_bit)) (\<lambda>r.
     field_setitem reg_name f ''value''
       (Num (r AND mask_loop (nat field_size) 0)))))))))"

fun m_foreach :: "('a \<Rightarrow> unit M) \<Rightarrow> 'a list \<Rightarrow> unit M" where
  "m_foreach body [] = m_return ()"
| "m_foreach body (x # xs) = m_bind (body x) (\<lambda>_. m_foreach body xs)"

text \<open>
  \<^verbatim>\<open>result = reg_def\<close> binds a second name to the stored descriptor: the value of the
  register and the numbers of every field are written into the store. Iterating over a
  string that stands where the field dictionary should be fails at its first character.
\<close>

definition read_register_dict :: "transport \<Rightarrow> string \<Rightarrow> dict M" where
  "read_register_dict T reg_name =
     m_bind (read_register T reg_name 0 0) (\<lambda>reg_value.
     m_bind (get_register_def reg_name 0) (\<lambda>reg_def.
     m_bind (reg_setitem reg_name ''value'' (Num reg_value)) (\<lambda>_.
     m_bind (reg_lookup reg_name) (\<lambda>result.
     m_bind (m_lift (getitem result ''FIELDS'')) (\<lambda>fields.
     m_bind
       (case fields of
          Dict fl \<Rightarrow> m_foreach (dict_field_step reg_name reg_value) (map fst fl)
        | Str cs \<Rightarrow> if cs = [] then m_return () else m_lift (Inl TypeError)
        | Num k \<Rightarrow> m_lift (Inl TypeError))
       (\<lambda>_. reg_lookup reg_name))))))"

section \<open>What a register access leaves unchanged\<close>

text \<open>The item \<open>k\<close> of the descriptor stored under \<open>n\<close>, if there is one.\<close>

definition reg_item :: "Chipset \<Rightarrow> string \<Rightarrow> string \<Rightarrow> pyval option" where
  "reg_item s n k = (case map_of (REGISTERS (Cfg s)) n of None \<Rightarrow> None | Some rd \<Rightarrow> map_of rd k)"

text \<open>
  \<open>store_frame K n s s'\<close>: from \<open>s\<close> to \<open>s'\<close> no category gained or lost a name, the
  devices, BARs, memory ranges, controls and bus bindings are the same, every register
  descriptor but that of \<open>n\<close> is the same, and in the descriptor of \<open>n\<close> only items
  named in \<open>K\<close> differ.
\<close>

definition store_frame :: "string set \<Rightarrow> string \<Rightarrow> Chipset \<Rightarrow> Chipset \<Rightarrow> bool" where
  "store_frame K n s s' =
     (CONFIG_PCI (Cfg s') = CONFIG_PCI (Cfg s) \<and> MMIO_BARS (Cfg s') = MMIO_BARS (Cfg s)
      \<and> IO_BARS (Cfg s') = IO_BARS (Cfg s) \<and> MEMORY_RANGES (Cfg s') = MEMORY_RANGES (Cfg s)
      \<and> CONTROLS (Cfg s') = CONTROLS (Cfg s) \<and> BUS (Cfg s') = BUS (Cfg s)
      \<and> map fst (REGISTERS (Cfg s')) = map fst (REGISTERS (Cfg s))
      \<and> (\<forall>m. m \<noteq> n \<longrightarrow> map_of (REGISTERS (Cfg s')) m = map_of (REGISTERS (Cfg s)) m)
      \<and> (\<forall>k. k \<notin> K \<longrightarrow> reg_item s' n k = reg_item s n k))"

text \<open>A relation between the session before and after holds for every run of a method.\<close>

definition m_inv :: "(Chipset \<Rightarrow> Chipset \<Rightarrow> bool) \<Rightarrow> 'a M \<Rightarrow> bool" where
  "m_inv P m = (\<forall>s. P s (snd (m s)))"

section \<open>A PCI configuration space that keeps what is written\<close>

text \<open>The value of the latest dword write to an address, in a log read from its end.\<close>

fun last_dword_write :: "access list \<Rightarrow> int \<Rightarrow> int \<Rightarrow> int \<Rightarrow> int \<Rightarrow> int option" where
  "last_dword_write [] b d f off = None"
| "last_dword_write (a # h) b d f off =
     (case a of
        pci_write_dword b' d' f' off' v \<Rightarrow>
          if b' = b \<and> d' = d \<and> f' = f \<and> off' = off then Some v
          else last_dword_write h b d f off
      | _ \<Rightarrow> last_dword_write h b d f off)"


text \<open>
  A store with a device, a 64-bit PCI configuration register of that device, a
  model-specific register with a field, and a control naming that field.
\<close>

definition demo_store :: Chipset where
  "demo_store = Chipset_init\<lparr>Cfg := Cfg_init
     \<lparr>CONFIG_PCI := [(''HOSTCTRL'', [(''bus'', ''0''), (''dev'', ''0''), (''fun'', ''0''),
                                      (''vid'', ''0x8086'')])],
      REGISTERS :=
        [(''PCI0.0.0_REMAPBASE'',
            [(''type'', Str ''pcicfg''), (''device'', Str ''HOSTCTRL''), (''offset'', Str ''0x90''),
             (''size'', Str ''8''), (''desc'', Str ''Memory Remap Base Address'')]),
         (''IA32_FEATURE_CONTROL'',
            [(''type'', Str ''msr''), (''msr'', Str ''0x3A''), (''size'', Str ''0x4''),
             (''desc'', Str ''Processor Feature Control''),
             (''FIELDS'', Dict [(''EN_VMX'', Dict [(''bit'', Str ''4''), (''size'', Str ''4''),
                                                  (''desc'', Str [])])])])],
      CONTROLS := [(''VmxEnable'', [(''register'', ''IA32_FEATURE_CONTROL''),
                                    (''field'', ''EN_VMX'')])]\<rparr>\<rparr>"

section \<open>The platform catalog\<close>

text \<open>
  The values of \<^verbatim>\<open>Chipset_Dictionary\<close> and \<^verbatim>\<open>pch_dictionary\<close>: name, numeric id, code and
  long name, keyed by the PCI device id.
\<close>

record catalog_entry =
  e_name :: string
  e_id :: int
  e_code :: string
  e_longname :: string

text \<open>
  A dictionary display and \<^verbatim>\<open>dict(pairs)\<close>: a later pair with a key seen before replaces
  the value and keeps the place of the first. Iteration over a dictionary follows the
  order of insertion.
\<close>

definition dict_of :: "('k \<times> 'v) list \<Rightarrow> ('k \<times> 'v) list" where
  "dict_of ps = foldl (\<lambda>d kv. AList.update (fst kv) (snd kv) d) [] ps"

definition VID_INTEL :: int where
  "VID_INTEL = 0x8086"

definition PCH_CODE_PREFIX :: string where
  "PCH_CODE_PREFIX = ''PCH_''"

definition Chipset_Dictionary_items :: "(int \<times> catalog_entry) list" where
  "Chipset_Dictionary_items =
   [
    (0x0100, \<lparr>e_name = ''Sandy Bridge'', e_id = 1, e_code = ''SNB'',
       e_longname = ''Desktop 2nd Generation Core Processor (Sandy Bridge CPU / Cougar Point PCH)''\<rparr>),
    (0x0104, \<lparr>e_name = ''Sandy Bridge'', e_id = 1, e_code = ''SNB'',
       e_longname = ''Mobile 2nd Generation Core Processor (Sandy Bridge CPU / Cougar Point PCH)''\<rparr>),
    (0x0108, \<lparr>e_name = ''Sandy Bridge'', e_id = 1, e_code = ''SNB'',
       e_longname = ''Intel Xeon Processor E3-1200 (Sandy Bridge CPU, C200 Series PCH)''\<rparr>),
    (0x3C00, \<lparr>e_name = ''Jaketown'', e_id = 2, e_code = ''JKT'',
       e_longname = ''Server 2nd Generation Core Processor (Jaketown CPU / Patsburg PCH)''\<rparr>),
    (0x0150, \<lparr>e_name = ''Ivy Bridge'', e_id = 3, e_code = ''IVB'',
       e_longname = ''Desktop 3rd Generation Core Processor (Ivy Bridge CPU / Panther Point PCH)''\<rparr>),
    (0x0154, \<lparr>e_name = ''Ivy Bridge'', e_id = 3, e_code = ''IVB'',
       e_longname = ''Mobile 3rd Generation Core Processor (Ivy Bridge CPU / Panther Point PCH)''\<rparr>),
    (0x0158, \<lparr>e_name = ''Ivy Bridge'', e_id = 3, e_code = ''IVB'',
       e_longname = ''Intel Xeon Processor E3-1200 v2 (Ivy Bridge CPU, C200/C216 Series PCH)''\<rparr>),
    (0x0E00, \<lparr>e_name = ''Ivytown'', e_id = 4, e_code = ''IVT'',
       e_longname = ''Server 3rd Generation Core Procesor (Ivytown CPU / Patsburg PCH)''\<rparr>),
    (0x0C00, \<lparr>e_name = ''Haswell'', e_id = 5, e_code = ''HSW'',
       e_longname = ''Desktop 4th Generation Core Processor (Haswell CPU / Lynx Point PCH)''\<rparr>),
    (0x0C04, \<lparr>e_name = ''Haswell'', e_id = 5, e_code = ''HSW'',
       e_longname = ''Mobile 4th Generation Core Processor (Haswell M/H / Lynx Point PCH)''\<rparr>),
    (0x0C08, \<lparr>e_name = ''Haswell'', e_id = 5, e_code = ''HSW'',
       e_longname = ''Intel Xeon Processor E3-1200 v3 (Haswell CPU, C220 Series PCH)''\<rparr>),
    (0x0D00, \<lparr>e_name = ''Haswell'', e_id = 5, e_code = ''HSW'',
       e_longname = ''Desktop 4th Generation Core Processor (Haswell)''\<rparr>),
    (0x0D04, \<lparr>e_name = ''Haswell'', e_id = 5, e_code = ''HSW'',
       e_longname = ''Mobile 4th Generation Core Processor (Haswell)''\<rparr>),
    (0x0D08, \<lparr>e_name = ''Haswell'', e_id = 5, e_code = ''HSW'',
       e_longname = ''4th Generation Core Processor (Haswell)''\<rparr>),
    (0x0A00, \<lparr>e_name = ''Haswell'', e_id = 5, e_code = ''HSW'',
       e_longname = ''4th Generation Core Processor (Haswell U/Y)''\<rparr>),
    (0x0A04, \<lparr>e_name = ''Haswell'', e_id = 5, e_code = ''HSW'',
       e_longname = ''4th Generation Core Processor (Haswell U/Y)''\<rparr>),
    (0x0A08, \<lparr>e_name = ''Haswell'', e_id = 5, e_code = ''HSW'',
       e_longname = ''4th Generation Core Processor (Haswell U/Y)''\<rparr>),
    (0x1600, \<lparr>e_name = ''Broadwell'', e_id = 7, e_code = ''BDW'',
       e_longname = ''Desktop 5th Generation Core Processor (Broadwell CPU / Wildcat Point PCH)''\<rparr>),
    (0x1604, \<lparr>e_name = ''Broadwell'', e_id = 7, e_code = ''BDW'',
       e_longname = ''Mobile 5th Generation Core Processor (Broadwell M/H / Wildcat Point PCH)''\<rparr>),
    (0x1610, \<lparr>e_name = ''Broadwell'', e_id = 7, e_code = ''BDW'',
       e_longname = ''Desktop 5th Generation Core Processor (Broadwell H / Wildcat Point PCH)''\<rparr>),
    (0x1614, \<lparr>e_name = ''Broadwell'', e_id = 7, e_code = ''BDW'',
       e_longname = ''Mobile 5th Generation Core Processor (Broadwell H / Wildcat Point PCH)''\<rparr>),
    (0x1904, \<lparr>e_name = ''Skylake'', e_id = 11, e_code = ''SKL'',
       e_longname = ''Mobile 6th Generation Core Processor (Skylake U)''\<rparr>),
    (0x190C, \<lparr>e_name = ''Skylake'', e_id = 11, e_code = ''SKL'',
       e_longname = ''Mobile 6th Generation Core Processor (Skylake Y)''\<rparr>),
    (0x1900, \<lparr>e_name = ''Skylake'', e_id = 11, e_code = ''SKL'',
       e_longname = ''Mobile 6th Generation Core Processor Dual Core (Skylake H)''\<rparr>),
    (0x1910, \<lparr>e_name = ''Skylake'', e_id = 11, e_code = ''SKL'',
       e_longname = ''Mobile 6th Generation Core Processor Quad Core (Skylake H)''\<rparr>),
    (0x190F, \<lparr>e_name = ''Skylake'', e_id = 11, e_code = ''SKL'',
       e_longname = ''Desktop 6th Generation Core Processor Dual Core (Skylake CPU / Sunrise Point PCH)''\<rparr>),
    (0x191F, \<lparr>e_name = ''Skylake'', e_id = 11, e_code = ''SKL'',
       e_longname = ''Desktop 6th Generation Core Processor Quad Core (Skylake CPU / Sunrise Point PCH)''\<rparr>),
    (0x5900, \<lparr>e_name = ''Kabylake'', e_id = 13, e_code = ''KBL'',
       e_longname = ''Mobile 7th Generation Core Processor (Kabylake H)''\<rparr>),
    (0x5904, \<lparr>e_name = ''Kabylake'', e_id = 13, e_code = ''KBL'',
       e_longname = ''Mobile 7th Generation Core Processor (Kabylake U)''\<rparr>),
    (0x590C, \<lparr>e_name = ''Kabylake'', e_id = 13, e_code = ''KBL'',
       e_longname = ''Mobile 7th Generation Core Processor (Kabylake Y)''\<rparr>),
    (0x590F, \<lparr>e_name = ''Kabylake'', e_id = 13, e_code = ''KBL'',
       e_longname = ''Desktop 7th Generation Core Processor (Kabylake S)''\<rparr>),
    (0x5910, \<lparr>e_name = ''Kabylake'', e_id = 13, e_code = ''KBL'',
       e_longname = ''Mobile 7th Generation Core Processor (Kabylake H)''\<rparr>),
    (0x5914, \<lparr>e_name = ''Kabylake'', e_id = 13, e_code = ''KBL'',
       e_longname = ''Mobile 8th Generation Core Processor (Kabylake U-Quad Core)''\<rparr>),
    (0x591F, \<lparr>e_name = ''Kabylake'', e_id = 13, e_code = ''KBL'',
       e_longname = ''Desktop 7th Generation Core Processor (Kabylake S)''\<rparr>),
    (0x5918, \<lparr>e_name = ''Kabylake'', e_id = 13, e_code = ''KBL'',
       e_longname = ''Mobile 7th Generation Core Processor (Kabylake H)''\<rparr>),
    (0x3E0F, \<lparr>e_name = ''CoffeeLake'', e_id = 16, e_code = ''CFL'',
       e_longname = ''Desktop 8th Generation Core Processor (CoffeeLake S 2 Cores)''\<rparr>),
    (0x3E1F, \<lparr>e_name = ''CoffeeLake'', e_id = 16, e_code = ''CFL'',
       e_longname = ''Desktop 8th Generation Core Processor (Coffeelake S 4 Cores)''\<rparr>),
    (0x3EC2, \<lparr>e_name = ''CoffeeLake'', e_id = 16, e_code = ''CFL'',
       e_longname = ''Desktop 8th Generation Core Processor (Coffeelake S 6 Cores)''\<rparr>),
    (0x3E30, \<lparr>e_name = ''CoffeeLake'', e_id = 16, e_code = ''CFL'',
       e_longname = ''Desktop 8th Generation Core Processor (CoffeeLake S 8 Cores)''\<rparr>),
    (0x3ECC, \<lparr>e_name = ''CoffeeLake'', e_id = 16, e_code = ''CFL'',
       e_longname = ''Desktop 8th Generation Core Processor (CoffeeLake U 2 Cores)''\<rparr>),
    (0x3ED0, \<lparr>e_name = ''CoffeeLake'', e_id = 16, e_code = ''CFL'',
       e_longname = ''Desktop 8th Generation Core Processor (CoffeeLake U 4 Cores)''\<rparr>),
    (0x3E10, \<lparr>e_name = ''CoffeeLake'', e_id = 16, e_code = ''CFL'',
       e_longname = ''Desktop 8th Generation Core Processor (CoffeeLake H 4 Cores)''\<rparr>),
    (0x3EC4, \<lparr>e_name = ''CoffeeLake'', e_id = 16, e_code = ''CFL'',
       e_longname = ''Desktop 8th Generation Core Processor (CoffeeLake H 6 Cores)''\<rparr>),
    (0x3E18, \<lparr>e_name = ''CoffeeLake'', e_id = 16, e_code = ''CFL'',
       e_longname = ''Desktop 8th Generation Core Processor (CoffeeLake Workstation 4 Cores)''\<rparr>),
    (0x3EC6, \<lparr>e_name = ''CoffeeLake'', e_id = 16, e_code = ''CFL'',
       e_longname = ''Desktop 8th Generation Core Processor (CoffeeLake Workstation 6 Cores)''\<rparr>),
    (0x3E31, \<lparr>e_name = ''CoffeeLake'', e_id = 16, e_code = ''CFL'',
       e_longname = ''Desktop 8th Generation Core Processor (CoffeeLake Workstation 8 Cores)''\<rparr>),
    (0x3E33, \<lparr>e_name = ''CoffeeLake'', e_id = 16, e_code = ''CFL'',
       e_longname = ''Desktop 8th Generation Core Processor (CoffeeLake Server 4 Cores)''\<rparr>),
    (0x3ECA, \<lparr>e_name = ''CoffeeLake'', e_id = 16, e_code = ''CFL'',
       e_longname = ''Desktop 8th Generation Core Processor (CoffeeLake Server 6 Cores)''\<rparr>),
    (0x3E32, \<lparr>e_name = ''CoffeeLake'', e_id = 16, e_code = ''CFL'',
       e_longname = ''Desktop 8th Generation Core Processor (CoffeeLake Server 8 Cores)''\<rparr>),
    (0x3E34, \<lparr>e_name = ''Whiskey Lake'', e_id = 19, e_code = ''WHL'',
       e_longname = ''Mobile 8th Generation Core Processor (Whiskey Lake U 4 Cores)''\<rparr>),
    (0x2F00, \<lparr>e_name = ''Haswell Server'', e_id = 10, e_code = ''HSX'',
       e_longname = ''Server 4th Generation Core Processor (Haswell Server CPU / Wellsburg PCH)''\<rparr>),
    (0x1618, \<lparr>e_name = ''Broadwell Server'', e_id = 7, e_code = ''BDW'',
       e_longname = ''Intel Xeon Processor E3 v4 (Broadwell CPU)''\<rparr>),
    (0x6F00, \<lparr>e_name = ''Broadwell Server'', e_id = 15, e_code = ''BDX'',
       e_longname = ''Intel Xeon Processor E5/E7 v4 (Broadwell Server CPU / Wellsburg PCH)''\<rparr>),
    (0x1918, \<lparr>e_name = ''Skylake Server'', e_id = 11, e_code = ''SKL'',
       e_longname = ''Intel Xeon Processor E3 v5 (Skylake CPU / Sunrise Point PCH)''\<rparr>),
    (0x2020, \<lparr>e_name = ''Skylake'', e_id = 20, e_code = ''SKX'',
       e_longname = ''Intel Xeon Processor E5/E7 v5 (Skylake)''\<rparr>),
    (0x5918, \<lparr>e_name = ''Kabylake'', e_id = 13, e_code = ''KBL'',
       e_longname = ''Intel Xeon Processor E3 v6 (Kabylake CPU)''\<rparr>),
    (0x0F00, \<lparr>e_name = ''Baytrail'', e_id = 6, e_code = ''BYT'',
       e_longname = ''Bay Trail SoC''\<rparr>),
    (0x1980, \<lparr>e_name = ''Denverton'', e_id = 18, e_code = ''DNV'',
       e_longname = ''Intel Atom Processor C3000 Product Family''\<rparr>),
    (0x1F00, \<lparr>e_name = ''Avoton  '', e_id = 9, e_code = ''AVN'',
       e_longname = ''Intel Avoton''\<rparr>),
    (0x1F01, \<lparr>e_name = ''Avoton  '', e_id = 9, e_code = ''AVN'',
       e_longname = ''Intel Avoton''\<rparr>),
    (0x1F02, \<lparr>e_name = ''Avoton  '', e_id = 9, e_code = ''AVN'',
       e_longname = ''Intel Avoton''\<rparr>),
    (0x1F03, \<lparr>e_name = ''Avoton  '', e_id = 9, e_code = ''AVN'',
       e_longname = ''Intel Avoton''\<rparr>),
    (0x1F04, \<lparr>e_name = ''Avoton  '', e_id = 9, e_code = ''AVN'',
       e_longname = ''Intel Avoton''\<rparr>),
    (0x1F05, \<lparr>e_name = ''Avoton  '', e_id = 9, e_code = ''AVN'',
       e_longname = ''Intel Avoton''\<rparr>),
    (0x1F06, \<lparr>e_name = ''Avoton  '', e_id = 9, e_code = ''AVN'',
       e_longname = ''Intel Avoton''\<rparr>),
    (0x1F07, \<lparr>e_name = ''Avoton  '', e_id = 9, e_code = ''AVN'',
       e_longname = ''Intel Avoton''\<rparr>),
    (0x1F08, \<lparr>e_name = ''Avoton  '', e_id = 9, e_code = ''AVN'',
       e_longname = ''Intel Avoton''\<rparr>),
    (0x1F09, \<lparr>e_name = ''Avoton  '', e_id = 9, e_code = ''AVN'',
       e_longname = ''Intel Avoton''\<rparr>),
    (0x1F0A, \<lparr>e_name = ''Avoton  '', e_id = 9, e_code = ''AVN'',
       e_longname = ''Intel Avoton''\<rparr>),
    (0x1F0B, \<lparr>e_name = ''Avoton  '', e_id = 9, e_code = ''AVN'',
       e_longname = ''Intel Avoton''\<rparr>),
    (0x1F0C, \<lparr>e_name = ''Avoton  '', e_id = 9, e_code = ''AVN'',
       e_longname = ''Intel Avoton''\<rparr>),
    (0x1F0D, \<lparr>e_name = ''Avoton  '', e_id = 9, e_code = ''AVN'',
       e_longname = ''Intel Avoton''\<rparr>),
    (0x1F0E, \<lparr>e_name = ''Avoton  '', e_id = 9, e_code = ''AVN'',
       e_longname = ''Intel Avoton''\<rparr>),
    (0x1F0F, \<lparr>e_name = ''Avoton  '', e_id = 9, e_code = ''AVN'',
       e_longname = ''Intel Avoton''\<rparr>),
    (0x2280, \<lparr>e_name = ''Braswell/Cherry Trail'', e_id = 14, e_code = ''CHT'',
       e_longname = ''Braswell/Cherry Trail SoC''\<rparr>),
    (0x5AF0, \<lparr>e_name = ''Apollo Lake'', e_id = 17, e_code = ''APL'',
       e_longname = ''Apollo Lake''\<rparr>),
    (0x0958, \<lparr>e_name = ''Galileo '', e_id = 8, e_code = ''QRK'',
       e_longname = ''Intel Quark SoC X1000''\<rparr>)
   ]"

definition pch_dictionary_items :: "(int \<times> catalog_entry) list" where
  "pch_dictionary_items =
   [
    (0xA143, \<lparr>e_name = ''H110'', e_id = 10001, e_code = ''PCH_1XX'',
       e_longname = ''Intel H110 (100 series) PCH''\<rparr>),
    (0xA144, \<lparr>e_name = ''H170'', e_id = 10001, e_code = ''PCH_1XX'',
       e_longname = ''Intel H170 (100 series) PCH''\<rparr>),
    (0xA145, \<lparr>e_name = ''Z170'', e_id = 10001, e_code = ''PCH_1XX'',
       e_longname = ''Intel Z170 (100 series) PCH''\<rparr>),
    (0xA146, \<lparr>e_name = ''Q170'', e_id = 10001, e_code = ''PCH_1XX'',
       e_longname = ''Intel Q170 (100 series) PCH''\<rparr>),
    (0xA147, \<lparr>e_name = ''Q150'', e_id = 10001, e_code = ''PCH_1XX'',
       e_longname = ''Intel Q150 (100 series) PCH''\<rparr>),
    (0xA148, \<lparr>e_name = ''B150'', e_id = 10001, e_code = ''PCH_1XX'',
       e_longname = ''Intel B150 (100 series) PCH''\<rparr>),
    (0xA14D, \<lparr>e_name = ''CQM170'', e_id = 10001, e_code = ''PCH_1XX'',
       e_longname = ''Intel CQM170 (100 series) PCH''\<rparr>),
    (0xA14E, \<lparr>e_name = ''HM170'', e_id = 10001, e_code = ''PCH_1XX'',
       e_longname = ''Intel HM170 (100 series) PCH''\<rparr>),
    (0xA150, \<lparr>e_name = ''CM236'', e_id = 10001, e_code = ''PCH_1XX'',
       e_longname = ''Intel CM236 (100 series) PCH''\<rparr>),
    (0xA2C4, \<lparr>e_name = ''H270'', e_id = 10002, e_code = ''PCH_2XX'',
       e_longname = ''Intel H270 (200 series) PCH''\<rparr>),
    (0xA2C5, \<lparr>e_name = ''Z270'', e_id = 10002, e_code = ''PCH_2XX'',
       e_longname = ''Intel Z270 (200 series) PCH''\<rparr>),
    (0xA2C6, \<lparr>e_name = ''Q270'', e_id = 10002, e_code = ''PCH_2XX'',
       e_longname = ''Intel Q270 (200 series) PCH''\<rparr>),
    (0xA2C7, \<lparr>e_name = ''Q250'', e_id = 10002, e_code = ''PCH_2XX'',
       e_longname = ''Intel Q250 (200 series) PCH''\<rparr>),
    (0xA2C8, \<lparr>e_name = ''B250'', e_id = 10002, e_code = ''PCH_2XX'',
       e_longname = ''Intel B250 (200 series) PCH''\<rparr>),
    (0xA2C9, \<lparr>e_name = ''Z370'', e_id = 10002, e_code = ''PCH_2XX'',
       e_longname = ''Intel Z370 (200 series) PCH''\<rparr>),
    (0xA2D2, \<lparr>e_name = ''X299'', e_id = 10002, e_code = ''PCH_2XX'',
       e_longname = ''Intel X299 (200 series) PCH''\<rparr>),
    (0xA306, \<lparr>e_name = ''Q370'', e_id = 10006, e_code = ''PCH_3XX'',
       e_longname = ''Intel Q370 (300 series) PCH''\<rparr>),
    (0xA304, \<lparr>e_name = ''H370'', e_id = 10006, e_code = ''PCH_3XX'',
       e_longname = ''Intel H370 (300 series) PCH''\<rparr>),
    (0xA305, \<lparr>e_name = ''Z390'', e_id = 10006, e_code = ''PCH_3XX'',
       e_longname = ''Intel Z390 (300 series) PCH''\<rparr>),
    (0xA308, \<lparr>e_name = ''B360'', e_id = 10006, e_code = ''PCH_3XX'',
       e_longname = ''Intel B360 (300 series) PCH''\<rparr>),
    (0xA303, \<lparr>e_name = ''H310'', e_id = 10006, e_code = ''PCH_3XX'',
       e_longname = ''Intel H310 (300 series) PCH''\<rparr>),
    (0xA30A, \<lparr>e_name = ''C242'', e_id = 10006, e_code = ''PCH_3XX'',
       e_longname = ''Intel C242 (300 series) PCH''\<rparr>),
    (0xA309, \<lparr>e_name = ''C246'', e_id = 10006, e_code = ''PCH_3XX'',
       e_longname = ''Intel C246 (300 series) PCH''\<rparr>),
    (0xA30D, \<lparr>e_name = ''HM370'', e_id = 10006, e_code = ''PCH_3XX'',
       e_longname = ''Intel HM370 (300 series) PCH''\<rparr>),
    (0xA30C, \<lparr>e_name = ''QM370'', e_id = 10006, e_code = ''PCH_3XX'',
       e_longname = ''Intel QM370 (300 series) PCH''\<rparr>),
    (0xA30E, \<lparr>e_name = ''CM246'', e_id = 10006, e_code = ''PCH_3XX'',
       e_longname = ''Intel CM246 (300 series) PCH''\<rparr>),
    (0x9D84, \<lparr>e_name = ''PCH-U'', e_id = 10006, e_code = ''PCH_3XX'',
       e_longname = ''Intel 300 series On-Package PCH''\<rparr>),
    (0x1D41, \<lparr>e_name = ''C600'', e_id = 10004, e_code = ''PCH_C60X'',
       e_longname = ''Intel C600/X79 series PCH''\<rparr>),
    (0x8D40, \<lparr>e_name = ''C610'', e_id = 10005, e_code = ''PCH_C61X'',
       e_longname = ''Intel Wellsburg (C610/X99 series) PCH''\<rparr>),
    (0x8D44, \<lparr>e_name = ''C610-G'', e_id = 10005, e_code = ''PCH_C61X'',
       e_longname = ''Intel Wellsburg-G (C610/X99 series) PCH''\<rparr>),
    (0x8D47, \<lparr>e_name = ''C610-X'', e_id = 10005, e_code = ''PCH_C61X'',
       e_longname = ''Intel Wellsburg-X (C610/X99 series) PCH''\<rparr>),
    (0xA1C1, \<lparr>e_name = ''C621'', e_id = 10003, e_code = ''PCH_C620'',
       e_longname = ''Intel C621 (C620 series) PCH''\<rparr>),
    (0xA1C2, \<lparr>e_name = ''C622'', e_id = 10003, e_code = ''PCH_C620'',
       e_longname = ''Intel C622 (C620 series) PCH''\<rparr>),
    (0xA1C3, \<lparr>e_name = ''C624'', e_id = 10003, e_code = ''PCH_C620'',
       e_longname = ''Intel C624 (C620 series) PCH''\<rparr>),
    (0xA1C4, \<lparr>e_name = ''C625'', e_id = 10003, e_code = ''PCH_C620'',
       e_longname = ''Intel C625 (C620 series) PCH''\<rparr>),
    (0xA1C5, \<lparr>e_name = ''C626'', e_id = 10003, e_code = ''PCH_C620'',
       e_longname = ''Intel C626 (C620 series) PCH''\<rparr>),
    (0xA1C6, \<lparr>e_name = ''C627'', e_id = 10003, e_code = ''PCH_C620'',
       e_longname = ''Intel C627 (C620 series) PCH''\<rparr>),
    (0xA1C7, \<lparr>e_name = ''C628'', e_id = 10003, e_code = ''PCH_C620'',
       e_longname = ''Intel C628 (C620 series) PCH''\<rparr>),
    (0xA242, \<lparr>e_name = ''C624'', e_id = 10003, e_code = ''PCH_C620'',
       e_longname = ''Intel C624 (C620 series) PCH''\<rparr>),
    (0xA243, \<lparr>e_name = ''C627'', e_id = 10003, e_code = ''PCH_C620'',
       e_longname = ''Intel C627 (C620 series) PCH''\<rparr>),
    (0xA244, \<lparr>e_name = ''C621'', e_id = 10003, e_code = ''PCH_C620'',
       e_longname = ''Intel C621 (C620 series) PCH''\<rparr>),
    (0xA245, \<lparr>e_name = ''C627'', e_id = 10003, e_code = ''PCH_C620'',
       e_longname = ''Intel C627 (C620 series) PCH''\<rparr>),
    (0xA246, \<lparr>e_name = ''C628'', e_id = 10003, e_code = ''PCH_C620'',
       e_longname = ''Intel C628 (C620 series) PCH''\<rparr>)
   ]"


definition Chipset_Dictionary :: "(int \<times> catalog_entry) list" where
  "Chipset_Dictionary = dict_of Chipset_Dictionary_items"

definition pch_dictionary :: "(int \<times> catalog_entry) list" where
  "pch_dictionary = dict_of pch_dictionary_items"

text \<open>
  \<^verbatim>\<open>dict([(Chipset_Dictionary[_did]['code'], _did) for _did in Chipset_Dictionary])\<close>, and
  the same for the controller hubs. (The optional module \<^verbatim>\<open>custom_chipsets\<close>, which
  could extend the dictionaries, is taken to be absent.)
\<close>

definition Chipset_Code :: "(string \<times> int) list" where
  "Chipset_Code = dict_of (map (\<lambda>kv. (e_code (snd kv), fst kv)) Chipset_Dictionary)"

definition pch_codes :: "(string \<times> int) list" where
  "pch_codes = dict_of (map (\<lambda>kv. (e_code (snd kv), fst kv)) pch_dictionary)"

section \<open>The host: files, modules and the helper\<close>

text \<open>
  An element of a parsed document, as \<^verbatim>\<open>xml.etree.ElementTree\<close> gives it: tag,
  attributes, children in document order. An element is known by its path from the root
  of its document, the positions of the children on the way down.
\<close>

datatype xml = Element (tag: string) (attrib: attrib) (children: "xml list")

type_synonym path = "nat list"

text \<open>What \<^verbatim>\<open>importlib.import_module('chipsec.cfg.' + code)\<close> and the class in it do.\<close>

datatype import_outcome =
    NoModule
  | ModuleRaises error
  | ModuleCfg Cfg

text \<open>
  Everything \<^verbatim>\<open>init\<close> meets outside this module and outside the hardware: whether
  \<^verbatim>\<open>helper.start\<close> raises; the constant \<^verbatim>\<open>PCI_HDR_RID_OFF\<close> of \<^verbatim>\<open>chipsec.hal.pci\<close>;
  the platform modules (\<open>NoModule\<close> is the \<^verbatim>\<open>ImportError\<close>); the directories and file
  names that \<^verbatim>\<open>os.walk\<close> yields under \<^verbatim>\<open>chipsec/cfg\<close>; and for a path whether the file
  exists and what \<^verbatim>\<open>ET.parse\<close> makes of it (\<open>None\<close>: no such file; \<open>Inl\<close>: the parser
  raises).
\<close>

record host =
  helper_start :: "error option"
  PCI_HDR_RID_OFF :: int
  platform_module :: "string \<Rightarrow> import_outcome"
  walk :: "(string \<times> string list) list"
  xml_file :: "string \<Rightarrow> (error + xml) option"

section \<open>Loading the configuration\<close>

subsection \<open>File names\<close>

text \<open>
  \<^verbatim>\<open>fnmatch.fnmatch\<close> on a POSIX host (no case folding) for patterns of literal
  characters, \<^verbatim>\<open>*\<close> and \<^verbatim>\<open>?\<close>. Character classes in brackets are not modelled; the
  patterns of this module are built from \<^verbatim>\<open>common\<close>, the platform codes and
  \<^verbatim>\<open>*.xml\<close>.
\<close>

fun fnmatch :: "string \<Rightarrow> string \<Rightarrow> bool" where
  "fnmatch [] [] = True"
| "fnmatch (c # cs) [] = False"
| "fnmatch [] (p # ps) = (p = CHR ''*'' \<and> fnmatch [] ps)"
| "fnmatch (c # cs) (p # ps) =
     (if p = CHR ''*'' then fnmatch (c # cs) ps \<or> fnmatch cs (p # ps)
      else (p = CHR ''?'' \<or> p = c) \<and> fnmatch cs ps)"

text \<open>\<^verbatim>\<open>os.path.join(root, x)\<close> for a file name \<open>x\<close> and \<^verbatim>\<open>os.path.basename\<close>, POSIX.\<close>

definition path_join :: "string \<Rightarrow> string \<Rightarrow> string" where
  "path_join root x =
     (if take 1 x = ''/'' then x
      else if root = [] \<or> last root = CHR ''/'' then root @ x
      else root @ ''/'' @ x)"

definition basename :: "string \<Rightarrow> string" where
  "basename p = rev (takeWhile (\<lambda>c. c \<noteq> CHR ''/'') (rev p))"

definition startswith :: "string \<Rightarrow> string \<Rightarrow> bool" where
  "startswith s p = (take (length p) s = p)"

text \<open>The sorted list \<^verbatim>\<open>_cfg_files\<close> of \<^verbatim>\<open>init_xml_configuration\<close>.\<close>

definition cfg_files :: "host \<Rightarrow> string list" where
  "cfg_files H =
     sort (concat (map (\<lambda>rf. map (path_join (fst rf)) (filter (\<lambda>x. fnmatch x ''*.xml'') (snd rf)))
                       (walk H)))"

text \<open>
  The list \<^verbatim>\<open>loaded_files\<close> of \<^verbatim>\<open>init_xml_configuration\<close>, from the chipset code, the
  PCH code and the sorted file list: the four phases append to it in turn.
\<close>

definition platform_files :: "string list \<Rightarrow> string list" where
  "platform_files fs =
     concat (map (\<lambda>plat. filter (\<lambda>x. fnmatch (basename x) (plat @ ''*.xml'')
                                      \<or> startswith (basename x) (lower PCH_CODE_PREFIX)) fs)
                 (map (\<lambda>c. lower (fst c)) Chipset_Code))"

definition loaded_files :: "string \<Rightarrow> string \<Rightarrow> string list \<Rightarrow> string list" where
  "loaded_files chip pch fs =
     (let l1 = filter (\<lambda>x. fnmatch (basename x) ''common*.xml'') fs;
          l2 = l1 @ (if chip \<noteq> [] then filter (\<lambda>x. fnmatch (basename x) (chip @ ''*.xml'')) fs
                     else []);
          l3 = l2 @ (if pch \<noteq> [] then filter (\<lambda>x. fnmatch (basename x) (pch @ ''*.xml'')) fs
                     else [])
      in l3 @ filter (\<lambda>x. x \<notin> set l3 \<and> x \<notin> set (platform_files fs)) fs)"

subsection \<open>Documents\<close>

text \<open>
  \<^verbatim>\<open>e.iter(t)\<close>: the element itself and all below it, in document order, that carry
  the tag \<open>t\<close>; each with its path.
\<close>

fun iter_from :: "string \<Rightarrow> path \<Rightarrow> xml \<Rightarrow> (path \<times> xml) list"
  and iter_children :: "string \<Rightarrow> path \<Rightarrow> nat \<Rightarrow> xml list \<Rightarrow> (path \<times> xml) list" where
  "iter_from t p (Element g a cs) =
     (if g = t then [(p, Element g a cs)] else []) @ iter_children t p 0 cs"
| "iter_children t p i [] = []"
| "iter_children t p i (c # cs) = iter_from t (p @ [i]) c @ iter_children t p (Suc i) cs"

text \<open>\<^verbatim>\<open>for a in e.iter(outer): for b in a.iter(inner)\<close>: the elements \<open>b\<close> in turn.\<close>

definition nested_iter :: "string \<Rightarrow> string \<Rightarrow> path \<times> xml \<Rightarrow> (path \<times> xml) list" where
  "nested_iter outer inner pe =
     concat (map (\<lambda>qe. iter_from inner (fst qe) (snd qe)) (iter_from outer (fst pe) (snd pe)))"

text \<open>
  \<^verbatim>\<open>_name = x.attrib['name']; del x.attrib['name']\<close>. The deletion changes the element
  of the document, so that a second visit of the same element finds no name; \<open>vis\<close> are
  the paths of the elements visited so far. The result is the name, the attributes left,
  and the paths visited now.
\<close>

definition take_name :: "path \<times> xml \<Rightarrow> path list \<Rightarrow> error + string \<times> attrib \<times> path list" where
  "take_name pe vis =
     (if fst pe \<in> set vis then Inl (KeyError ''name'')
      else (case map_of (attrib (snd pe)) ''name'' of
              None \<Rightarrow> Inl (KeyError ''name'')
            | Some n \<Rightarrow> Inr (n, AList.delete ''name'' (attrib (snd pe)), fst pe # vis)))"

text \<open>
  One entry applied to its category: with the marker \<^verbatim>\<open>undef\<close> the name is popped,
  otherwise the attributes are stored under the name.
\<close>

definition cat_apply :: "string \<Rightarrow> 'v \<Rightarrow> bool \<Rightarrow> (string \<times> 'v) list \<Rightarrow> (string \<times> 'v) list" where
  "cat_apply n v undef cat = (if undef then AList.delete n cat else AList.update n v cat)"

text \<open>
  The body of the loops over devices, BARs, memory ranges and controls; \<open>upd\<close> says
  which category of \<^verbatim>\<open>self.Cfg\<close> the loop works on.
\<close>

definition load_entry ::
  "(((string \<times> attrib) list \<Rightarrow> (string \<times> attrib) list) \<Rightarrow> Cfg \<Rightarrow> Cfg)
     \<Rightarrow> path \<times> xml \<Rightarrow> path list \<Rightarrow> (path list) M" where
  "load_entry upd pe vis s =
     (case take_name pe vis of
        Inl e \<Rightarrow> (Inl e, s)
      | Inr (n, a, vis') \<Rightarrow>
          (Inr vis', s\<lparr>Cfg := upd (cat_apply n a (has_key a ''undef'')) (Cfg s)\<rparr>))"

text \<open>\<^verbatim>\<open>if k not in d: d[k] = v\<close>.\<close>

definition default_item :: "string \<Rightarrow> 'v \<Rightarrow> (string \<times> 'v) list \<Rightarrow> (string \<times> 'v) list" where
  "default_item k v d = (if has_key d k then d else AList.update k v d)"

definition str_dict :: "attrib \<Rightarrow> dict" where
  "str_dict a = map (\<lambda>kv. (fst kv, Str (snd kv))) a"

fun fold_err :: "('a \<Rightarrow> 'b \<Rightarrow> error + 'b) \<Rightarrow> 'a list \<Rightarrow> 'b \<Rightarrow> error + 'b" where
  "fold_err f [] acc = Inr acc"
| "fold_err f (x # xs) acc = (case f x acc of Inl e \<Rightarrow> Inl e | Inr acc' \<Rightarrow> fold_err f xs acc')"

fun m_fold :: "('a \<Rightarrow> 'b \<Rightarrow> 'b M) \<Rightarrow> 'a list \<Rightarrow> 'b \<Rightarrow> 'b M" where
  "m_fold f [] acc = m_return acc"
| "m_fold f (x # xs) acc = m_bind (f x acc) (m_fold f xs)"

text \<open>The body of \<^verbatim>\<open>for _field in _register.iter('field')\<close>.\<close>

definition load_field :: "path \<times> xml \<Rightarrow> path list \<times> dict \<Rightarrow> error + path list \<times> dict" where
  "load_field pe st =
     (case take_name pe (fst st) of
        Inl e \<Rightarrow> Inl e
      | Inr (n, a, vis') \<Rightarrow>
          Inr (vis', AList.update n (Dict (default_item ''desc'' (Str []) (str_dict a))) (snd st)))"

text \<open>
  The body of \<^verbatim>\<open>for _register in _registers.iter('register')\<close>. The fields are
  collected only when the register has a child \<^verbatim>\<open>field\<close> (\<^verbatim>\<open>find\<close>), and then from
  all elements \<^verbatim>\<open>field\<close> below it (\<^verbatim>\<open>iter\<close>).
\<close>

definition register_value :: "attrib \<Rightarrow> dict" where
  "register_value a = default_item ''desc'' (Str []) (default_item ''size'' (Str ''0x4'') (str_dict a))"

definition load_register :: "path \<times> xml \<Rightarrow> path list \<Rightarrow> (path list) M" where
  "load_register pe vis s =
     (case take_name pe vis of
        Inl e \<Rightarrow> (Inl e, s)
      | Inr (n, a, vis1) \<Rightarrow>
          if has_key a ''undef'' then
            (Inr vis1, s\<lparr>Cfg := REGISTERS_update (cat_apply n [] True) (Cfg s)\<rparr>)
          else if list_ex (\<lambda>c. tag c = ''field'') (children (snd pe)) then
            (case fold_err load_field (iter_from ''field'' (fst pe) (snd pe)) (vis1, []) of
               Inl e \<Rightarrow> (Inl e, s)
             | Inr (vis2, reg_fields) \<Rightarrow>
                 (Inr vis2,
                  s\<lparr>Cfg := REGISTERS_update
                     (cat_apply n (AList.update ''FIELDS'' (Dict reg_fields) (register_value a))
                        False) (Cfg s)\<rparr>))
          else (Inr vis1, s\<lparr>Cfg := REGISTERS_update (cat_apply n (register_value a) False) (Cfg s)\<rparr>))"

text \<open>
  A section \<^verbatim>\<open>configuration\<close> is applied when it has no attribute \<^verbatim>\<open>platform\<close>, or that
  attribute in lower case is the chipset code or the PCH code.
\<close>

definition section_applies :: "string \<Rightarrow> string \<Rightarrow> xml \<Rightarrow> bool" where
  "section_applies chip pch cfg =
     (case map_of (attrib cfg) ''platform'' of
        None \<Rightarrow> True
      | Some p \<Rightarrow> chip = lower p \<or> pch = lower p)"

definition load_section :: "path \<times> xml \<Rightarrow> path list \<Rightarrow> (path list) M" where
  "load_section pe vis =
     m_bind (m_fold (load_entry CONFIG_PCI_update) (nested_iter ''pci'' ''device'' pe) vis) (\<lambda>vis.
     m_bind (m_fold (load_entry MMIO_BARS_update) (nested_iter ''mmio'' ''bar'' pe) vis) (\<lambda>vis.
     m_bind (m_fold (load_entry IO_BARS_update) (nested_iter ''io'' ''bar'' pe) vis) (\<lambda>vis.
     m_bind (m_fold (load_entry MEMORY_RANGES_update) (nested_iter ''memory'' ''range'' pe) vis)
       (\<lambda>vis.
     m_bind (m_fold load_register (nested_iter ''registers'' ''register'' pe) vis) (\<lambda>vis.
     m_fold (load_entry CONTROLS_update) (nested_iter ''controls'' ''control'' pe) vis)))))"

definition init_cfg_xml :: "host \<Rightarrow> string \<Rightarrow> string \<Rightarrow> string \<Rightarrow> unit M" where
  "init_cfg_xml H fxml chip pch =
     (case xml_file H fxml of
        None \<Rightarrow> m_return ()
      | Some (Inl e) \<Rightarrow> m_lift (Inl e)
      | Some (Inr root) \<Rightarrow>
          m_bind
            (m_fold (\<lambda>pe vis. if section_applies chip pch (snd pe) then load_section pe vis
                               else m_return vis)
               (iter_from ''configuration'' [] root) [])
            (\<lambda>_. m_return ()))"

subsection \<open>Bus numbers\<close>

text \<open>
  The inner loop of \<^verbatim>\<open>init_cfg_bus\<close> over the enumerated devices \<open>(bus, dev, fun, vid,
  did)\<close>, with \<^verbatim>\<open>bus_list\<close> as accumulator: the three numbers of the descriptor are read
  anew for every enumerated device.
\<close>

fun match_buses ::
  "attrib \<Rightarrow> string \<Rightarrow> int list \<Rightarrow> (int \<times> int \<times> int \<times> int \<times> int) list \<Rightarrow> string list
     \<Rightarrow> error + string list" where
  "match_buses device_data xml_vid did_list [] bus_list = Inr bus_list"
| "match_buses device_data xml_vid did_list (enum_dev # rest) bus_list =
     (case getitem device_data ''dev'' of Inl e \<Rightarrow> Inl e | Inr dv \<Rightarrow>
     (case py_int16 (Str dv) of Inl e \<Rightarrow> Inl e | Inr d \<Rightarrow>
     (case getitem device_data ''fun'' of Inl e \<Rightarrow> Inl e | Inr fv \<Rightarrow>
     (case py_int16 (Str fv) of Inl e \<Rightarrow> Inl e | Inr f \<Rightarrow>
     (case py_int16 (Str xml_vid) of Inl e \<Rightarrow> Inl e | Inr v \<Rightarrow>
        match_buses device_data xml_vid did_list rest
          (if (d, f, v) = (fst (snd enum_dev), fst (snd (snd enum_dev)),
                           fst (snd (snd (snd enum_dev))))
              \<and> snd (snd (snd (snd enum_dev))) \<in> set did_list
           then bus_list @ [py_hex (fst enum_dev)] else bus_list))))))"

text \<open>\<^verbatim>\<open>[int(_, 16) for _ in xml_did.split(',')]\<close>.\<close>

definition did_list_of :: "string \<Rightarrow> error + int list" where
  "did_list_of xml_did =
     fold_err (\<lambda>x acc. case py_int16 (Str x) of Inl e \<Rightarrow> Inl e | Inr n \<Rightarrow> Inr (acc @ [n]))
       (split_on CHR '','' xml_did) []"

text \<open>
  The body of \<^verbatim>\<open>for config_device in self.Cfg.CONFIG_PCI\<close>. A vendor id or device id
  that is missing or empty is false in \<^verbatim>\<open>if (xml_vid and xml_did)\<close>.
\<close>

definition bus_step ::
  "(int \<times> int \<times> int \<times> int \<times> int) list \<Rightarrow> string \<Rightarrow> unit M" where
  "bus_step enum_devices config_device s =
     (case getitem (CONFIG_PCI (Cfg s)) config_device of
        Inl e \<Rightarrow> (Inl e, s)
      | Inr device_data \<Rightarrow>
         (case (map_of device_data ''vid'', map_of device_data ''did'') of
            (Some xml_vid, Some xml_did) \<Rightarrow>
              if xml_vid \<noteq> [] \<and> xml_did \<noteq> [] then
                (case did_list_of xml_did of
                   Inl e \<Rightarrow> (Inl e, s)
                 | Inr did_list \<Rightarrow>
                    (case match_buses device_data xml_vid did_list enum_devices [] of
                       Inl e \<Rightarrow> (Inl e, s)
                     | Inr bus_list \<Rightarrow>
                         if bus_list \<noteq> [] then
                           (Inr (), s\<lparr>Cfg := (Cfg s)\<lparr>BUS :=
                              AList.update config_device bus_list (BUS (Cfg s))\<rparr>\<rparr>)
                         else (Inr (), s)))
              else (Inr (), s)
          | _ \<Rightarrow> (Inr (), s)))"

text \<open>
  \<^verbatim>\<open>init_cfg_bus\<close>: an enumeration that raises counts as one that found nothing.
\<close>

definition init_cfg_bus :: "transport \<Rightarrow> unit M" where
  "init_cfg_bus T s =
     (let enum_devices = (case hal_enumerate T (hal_log s) of Inl e \<Rightarrow> [] | Inr ds \<Rightarrow> ds);
          s1 = s\<lparr>hal_log := hal_log s @ [enumerate_devices]\<rparr>
      in m_foreach (bus_step enum_devices) (map fst (CONFIG_PCI (Cfg s1))) s1)"

subsection \<open>\<^verbatim>\<open>init_xml_configuration\<close> and \<^verbatim>\<open>init_cfg\<close>\<close>

definition init_xml_configuration :: "host \<Rightarrow> transport \<Rightarrow> unit M" where
  "init_xml_configuration H T s =
     m_bind (m_foreach (\<lambda>x s'. init_cfg_xml H x (code s') (pch_code s') s')
               (loaded_files (code s) (pch_code s) (cfg_files H))) (\<lambda>_.
     m_bind (init_cfg_bus T) (\<lambda>_ s'.
       (Inr (), s'\<lparr>Cfg := (Cfg s')\<lparr>XML_CONFIG_LOADED := True\<rparr>\<rparr>))) s"

text \<open>
  \<^verbatim>\<open>init_cfg\<close>: the platform module, when the code is not empty, replaces the store; a
  missing module is passed over, any other exception of the import leaves the method.
  Whatever \<^verbatim>\<open>init_xml_configuration\<close> raises is caught.
\<close>

definition init_cfg :: "host \<Rightarrow> transport \<Rightarrow> unit M" where
  "init_cfg H T s =
     (case (if code s \<noteq> [] then
              (case platform_module H (code s) of
                 NoModule \<Rightarrow> (Inr (), s)
               | ModuleRaises e \<Rightarrow> (Inl e, s)
               | ModuleCfg c \<Rightarrow> (Inr (), s\<lparr>Cfg := c\<rparr>))
            else (Inr (), s)) of
        (Inl e, s1) \<Rightarrow> (Inl e, s1)
      | (Inr u, s1) \<Rightarrow> (Inr (), snd (init_xml_configuration H T s1)))"

section \<open>Identification\<close>

text \<open>
  One of the two \<^verbatim>\<open>try\<close> blocks of \<^verbatim>\<open>detect_platform\<close>, for the device \<open>dev\<close> on bus 0:
  vendor, device and revision id, each left at its invalid default when the read before
  it failed.
\<close>

definition detect_ids :: "host \<Rightarrow> transport \<Rightarrow> int \<Rightarrow> Chipset \<Rightarrow> (int \<times> int \<times> int) \<times> Chipset" where
  "detect_ids H T dev s =
     (case hal_rd T (pci_read_dword 0 dev 0 0) s of
        (Inl e, s1) \<Rightarrow> ((0xFFFF, 0xFFFF, 0xFF), s1)
      | (Inr vid_did, s1) \<Rightarrow>
          (case hal_rd T (pci_read_byte 0 dev 0 (PCI_HDR_RID_OFF H)) s1 of
             (Inl e, s2) \<Rightarrow> ((vid_did AND 0xFFFF, drop_bit 16 vid_did AND 0xFFFF, 0xFF), s2)
           | (Inr r, s2) \<Rightarrow> ((vid_did AND 0xFFFF, drop_bit 16 vid_did AND 0xFFFF, r), s2)))"

definition detect_platform ::
  "host \<Rightarrow> transport \<Rightarrow> Chipset \<Rightarrow> ((int \<times> int \<times> int) \<times> (int \<times> int \<times> int)) \<times> Chipset" where
  "detect_platform H T s =
     (case detect_ids H T 0 s of (ids, s1) \<Rightarrow>
      case detect_ids H T 31 s1 of (pch_ids, s2) \<Rightarrow> ((ids, pch_ids), s2))"

text \<open>
  The chipset part of \<^verbatim>\<open>init\<close> between \<^verbatim>\<open>detect_platform\<close> and the PCH part: the
  session with its identity set, and the flag \<^verbatim>\<open>_unknown_platform\<close>.
\<close>

definition identify_chipset :: "string option \<Rightarrow> Chipset \<Rightarrow> bool \<times> Chipset" where
  "identify_chipset platform_code s =
     (let (unknown1, s1) =
            (case platform_code of
               None \<Rightarrow> (VID_INTEL \<noteq> vid s, s)
             | Some pc \<Rightarrow>
                 (case map_of Chipset_Code pc of
                    Some d \<Rightarrow> (False, s\<lparr>vid := VID_INTEL, did := d, rid := 0x00\<rparr>)
                  | None \<Rightarrow> (True, s\<lparr>vid := 0xFFFF, did := 0xFFFF, rid := 0xFF\<rparr>)))
      in (case map_of Chipset_Dictionary (did s1) of
            Some data_dict \<Rightarrow>
              (unknown1, s1\<lparr>code := lower (e_code data_dict), longname := e_longname data_dict,
                             id' := e_id data_dict\<rparr>)
          | None \<Rightarrow> (True, s1\<lparr>longname := ''UnknownPlatform''\<rparr>)))"

definition identify_pch :: "string option \<Rightarrow> Chipset \<Rightarrow> Chipset" where
  "identify_pch req_pch_code s =
     (let s1 = (case req_pch_code of
                  None \<Rightarrow> s
                | Some pc \<Rightarrow>
                    (case map_of pch_codes pc of
                       Some d \<Rightarrow> s\<lparr>pch_vid := VID_INTEL, pch_did := d, pch_rid := 0x00\<rparr>
                     | None \<Rightarrow> s\<lparr>pch_vid := 0xFFFF, pch_did := 0xFFFF, pch_rid := 0xFF\<rparr>))
      in (case (if pch_vid s1 = VID_INTEL then map_of pch_dictionary (pch_did s1) else None) of
            Some data_dict \<Rightarrow>
              s1\<lparr>pch_code := lower (e_code data_dict), pch_longname := e_longname data_dict,
                  pch_id := e_id data_dict\<rparr>
          | None \<Rightarrow> s1\<lparr>pch_longname := ''Default PCH''\<rparr>))"

text \<open>
  \<^verbatim>\<open>init(platform_code, req_pch_code, start_driver)\<close>; \<open>None\<close> stands for an argument
  \<^verbatim>\<open>None\<close>. An exception of \<^verbatim>\<open>helper.start\<close> leaves the method before anything is set.
\<close>

definition init :: "host \<Rightarrow> transport \<Rightarrow> string option \<Rightarrow> string option \<Rightarrow> bool \<Rightarrow> unit M" where
  "init H T platform_code req_pch_code start_driver s =
     (case helper_start H of
        Some e \<Rightarrow> (Inl e, s)
      | None \<Rightarrow>
         (case detect_platform H T s of
            (((v, d, r), (pv, pd, pr)), s1) \<Rightarrow>
              (case identify_chipset platform_code
                      (s1\<lparr>vid := v, did := d, rid := r, pch_vid := pv, pch_did := pd,
                          pch_rid := pr\<rparr>) of
                 (unknown_platform, s2) \<Rightarrow>
                   (case init_cfg H T (identify_pch req_pch_code s2) of
                      (Inl e, s3) \<Rightarrow> (Inl e, s3)
                    | (Inr u, s3) \<Rightarrow>
                        if unknown_platform \<and> start_driver then (Inl UnknownChipsetError, s3)
                        else (Inr (), s3)))))"

section \<open>What a bus binding stands for\<close>




section \<open>A host with no files and no platform modules\<close>

text \<open>
  \<^verbatim>\<open>helper.start\<close> returns, no module \<^verbatim>\<open>chipsec.cfg.<code>\<close> can be imported, and
  \<^verbatim>\<open>os.walk\<close> finds no file.
\<close>

definition bare_host :: host where
  "bare_host = \<lparr>helper_start = None, PCI_HDR_RID_OFF = 8, platform_module = (\<lambda>c. NoModule),
     walk = [], xml_file = (\<lambda>p. None)\<rparr>"

section \<open>What the entries of a document ask for\<close>








section \<open>The order of loading in words\<close>

text \<open>
  A code that can stand in a file name pattern for itself: none of the characters that
  \<^verbatim>\<open>fnmatch\<close> reads as a wildcard or a class, and no dot.
\<close>

definition plain_code :: "string \<Rightarrow> bool" where
  "plain_code p = list_all (\<lambda>c. c \<notin> set ''*?[.'') p"

text \<open>Whether the base name of a file begins with one of the codes, in lower case.\<close>

definition code_prefixed :: "string list \<Rightarrow> string \<Rightarrow> bool" where
  "code_prefixed codes x = list_ex (\<lambda>c. startswith (basename x) (lower c)) codes"

text \<open>
  The four phases as the specification words them: the files with the common prefix,
  those with the prefix of the chipset code, those with the prefix of the PCH code, and
  then every file not taken so far whose name begins with no known chipset code and no
  known PCH code; each phase in the order of the file list.
\<close>

definition spec_loaded_files :: "string \<Rightarrow> string \<Rightarrow> string list \<Rightarrow> string list" where
  "spec_loaded_files chip pch fs =
     (let commons = filter (\<lambda>x. startswith (basename x) ''common'') fs;
          chips = (if chip = [] then [] else filter (\<lambda>x. startswith (basename x) chip) fs);
          pchs = (if pch = [] then [] else filter (\<lambda>x. startswith (basename x) pch) fs);
          taken = commons @ chips @ pchs
      in taken @ filter (\<lambda>x. x \<notin> set taken
                          \<and> \<not> code_prefixed (map fst Chipset_Code @ map fst pch_codes) x) fs)"

text \<open>
  The same with the last phase as \<^verbatim>\<open>init_xml_configuration\<close> has it: a file is left
  out when its name begins with a known chipset code or with \<^verbatim>\<open>pch_\<close>, whatever
  follows.
\<close>

definition phased_files :: "string \<Rightarrow> string \<Rightarrow> string list \<Rightarrow> string list" where
  "phased_files chip pch fs =
     (let commons = filter (\<lambda>x. startswith (basename x) ''common'') fs;
          chips = (if chip = [] then [] else filter (\<lambda>x. startswith (basename x) chip) fs);
          pchs = (if pch = [] then [] else filter (\<lambda>x. startswith (basename x) pch) fs);
          taken = commons @ chips @ pchs
      in taken @ filter (\<lambda>x. x \<notin> set taken
                          \<and> \<not> code_prefixed (map fst Chipset_Code) x
                          \<and> \<not> startswith (basename x) ''pch_'') fs)"

text \<open>
  A configuration directory with files for two chipsets and one PCH, a file that names no
  platform, a file whose name begins with \<^verbatim>\<open>pch_\<close> and names no known PCH, and a file that
  is no document.
\<close>

definition cfg_host :: host where
  "cfg_host = bare_host\<lparr>walk :=
     [(''chipsec/cfg'', [''zeta.xml'', ''snb.xml'', ''pch_c620.xml'', ''pch_new.xml'', ''hsw.xml'',
                         ''common.xml'', ''readme.txt''])]\<rparr>"

section \<open>Verified properties\<close>

subsection \<open>Resolution of a register that names no PCI device\<close>

lemma get_register_def_plain:
  assumes "map_of (REGISTERS (Cfg s)) reg_name = Some reg_def"
    and "map_of reg_def ''type'' = Some ty"
    and "ty \<noteq> Str ''pcicfg''" and "ty \<noteq> Str ''mmcfg''"
  shows "get_register_def reg_name bus_index s = (Inr reg_def, s)"
  using assms
  by (simp add: get_register_def_def m_bind_def reg_lookup_def getitem_def m_lift_def
      m_return_def)

subsection \<open>Unknown register types\<close>

text \<open>
  Claim C5. A register whose declared \<^verbatim>\<open>type\<close> is none of the eight kinds of
  \<^verbatim>\<open>RegisterType\<close> makes both \<^verbatim>\<open>read_register\<close> and \<^verbatim>\<open>write_register\<close> raise
  \<^verbatim>\<open>RegisterTypeNotFoundError\<close>: no value is returned, no hardware access is made and
  the session is left as it was.
\<close>

theorem unknown_register_type_raises:
  assumes "map_of (REGISTERS (Cfg s)) reg_name = Some reg_def"
    and "map_of reg_def ''type'' = Some ty"
    and "ty \<notin> Str ` set RegisterType"
  shows "read_register T reg_name cpu_thread bus_index s
           = (Inl (RegisterTypeNotFoundError ty), s)
       \<and> write_register T reg_name reg_value cpu_thread bus_index s
           = (Inl (RegisterTypeNotFoundError ty), s)"
proof -
  have ne: "ty \<noteq> Str ''pcicfg''" "ty \<noteq> Str ''mmcfg''" "ty \<noteq> Str ''mmio''"
    "ty \<noteq> Str ''msr''" "ty \<noteq> Str ''io''" "ty \<noteq> Str ''iobar''" "ty \<noteq> Str ''msgbus''"
    "ty \<noteq> Str ''mm_msgbus''"
    using assms(3) by (auto simp: RegisterType_def)
  have g: "get_register_def reg_name bus_index s = (Inr reg_def, s)"
    using assms(1,2) ne(1,2) by (rule get_register_def_plain)
  have r: "read_register T reg_name cpu_thread bus_index s
             = (Inl (RegisterTypeNotFoundError ty), s)"
    using g assms(2) ne by (simp add: read_register_def m_bind_def m_lift_def getitem_def)
  have w: "write_register T reg_name reg_value cpu_thread bus_index s
             = (Inl (RegisterTypeNotFoundError ty), s)"
    using g assms(2) ne by (simp add: write_register_def m_bind_def m_lift_def getitem_def)
  show ?thesis using r w by simp
qed

theorem unknown_register_type_raises_witness:
  "read_register quiet_transport ''R'' 0 0 (with_registers [(''R'', [(''type'', Str ''smbus'')])])
     = (Inl (RegisterTypeNotFoundError (Str ''smbus'')),
        with_registers [(''R'', [(''type'', Str ''smbus'')])])
   \<and> write_register quiet_transport ''R'' 5 0 0
        (with_registers [(''R'', [(''type'', Str ''smbus'')])])
     = (Inl (RegisterTypeNotFoundError (Str ''smbus'')),
        with_registers [(''R'', [(''type'', Str ''smbus'')])])"
  using unknown_register_type_raises
    [of "with_registers [(''R'', [(''type'', Str ''smbus'')])]" "''R''"
        "[(''type'', Str ''smbus'')]" "Str ''smbus''" quiet_transport 0 0 5]
  by (simp add: with_registers_def RegisterType_def)

subsection \<open>Association lists and the resolution of a register\<close>



lemma one_shifted_minus_one: "push_bit n (1::int) - 1 = mask n"
  by (simp add: mask_eq_exp_minus_1 push_bit_eq_mult)

lemma update_commute_present:
  "k \<noteq> k' \<Longrightarrow> k \<in> fst ` set l \<Longrightarrow>
     AList.update k v (AList.update k' v' l) = AList.update k' v' (AList.update k v l)"
  by (induction l) auto

lemma map_entry_twice:
  "AList.map_entry k f (AList.map_entry k g xs) = AList.map_entry k (\<lambda>x. f (g x)) xs"
  by (induction xs) auto


lemma map_entry_absent:
  "map_of xs k = None \<Longrightarrow> AList.map_entry k f xs = xs"
  by (induction xs) (auto split: if_splits)

lemma map_of_map_entry_same:
  "map_of (AList.map_entry k f xs) k = map_option f (map_of xs k)"
  by (simp add: map_of_map_entry split: option.splits)

lemma map_of_map_entry_other:
  "k' \<noteq> k \<Longrightarrow> map_of (AList.map_entry k f xs) k' = map_of xs k'"
  by (simp add: map_of_map_entry split: option.splits)

lemma map_fst_map_entry: "map fst (AList.map_entry k f xs) = map fst xs"
  by (induction xs) auto

lemmas m_defs = m_bind_def m_lift_def m_return_def

lemma regs_upd_twice: "regs_upd n f (regs_upd n g s) = regs_upd n (\<lambda>x. f (g x)) s"
  by (simp add: regs_upd_def map_entry_twice)

lemma regs_upd_sel:
  "REGISTERS (Cfg (regs_upd n U s)) = AList.map_entry n U (REGISTERS (Cfg s))"
  "CONFIG_PCI (Cfg (regs_upd n U s)) = CONFIG_PCI (Cfg s)"
  "BUS (Cfg (regs_upd n U s)) = BUS (Cfg s)"
  "CONTROLS (Cfg (regs_upd n U s)) = CONTROLS (Cfg s)"
  "MMIO_BARS (Cfg (regs_upd n U s)) = MMIO_BARS (Cfg s)"
  "IO_BARS (Cfg (regs_upd n U s)) = IO_BARS (Cfg s)"
  "MEMORY_RANGES (Cfg (regs_upd n U s)) = MEMORY_RANGES (Cfg s)"
  "hal_log (regs_upd n U s) = hal_log s"
  by (simp_all add: regs_upd_def)

lemma bind_bus_cases:
  "bind_bus n d i s =
     (case map_of (BUS (Cfg s)) d of
        None \<Rightarrow> (Inr (), s)
      | Some buses \<Rightarrow>
          if i < int (length buses) then
            (case py_index buses i of
               Inl e \<Rightarrow> (Inl e, s)
             | Inr b \<Rightarrow> (Inr (), regs_upd n (AList.update ''bus'' (Str b)) s))
          else (Inr (), s))"
  by (simp add: bind_bus_def m_defs reg_setitem_def split: option.splits sum.splits)

lemma bind_device_found:
  assumes "map_of (CONFIG_PCI (Cfg s)) d = Some dev"
    and "map_of dev ''bus'' = Some B" and "map_of dev ''dev'' = Some D"
    and "map_of dev ''fun'' = Some F"
  shows "bind_device n d i s =
           bind_bus n d i (regs_upd n (\<lambda>x. AList.update ''fun'' (Str F)
              (AList.update ''dev'' (Str D) (AList.update ''bus'' (Str B) x))) s)"
  using assms
  by (simp add: bind_device_def m_defs reg_setitem_def getitem_def regs_upd_twice)



lemma regs_upd_id: "regs_upd n (\<lambda>x. x) s = s"
proof -
  have "AList.map_entry n (\<lambda>x. x) xs = xs" for xs :: "(string \<times> dict) list"
    by (induction xs) auto
  then show ?thesis by (simp add: regs_upd_def)
qed


lemma get_register_def_bound:
  assumes "map_of (REGISTERS (Cfg s)) n = Some rd" and "map_of rd ''type'' = Some ty"
    and "ty = Str ''pcicfg'' \<or> ty = Str ''mmcfg''"
    and "map_of rd ''device'' = Some (Str d)"
    and "map_of (CONFIG_PCI (Cfg s)) d = Some dev"
    and "map_of dev ''bus'' = Some B" and "map_of dev ''dev'' = Some D"
    and "map_of dev ''fun'' = Some F"
  shows "get_register_def n i s =
           m_bind (bind_bus n d i) (\<lambda>_. reg_lookup n)
             (regs_upd n (\<lambda>x. AList.update ''fun'' (Str F)
                (AList.update ''dev'' (Str D) (AList.update ''bus'' (Str B) x))) s)"
proof -
  have "bind_device n d i s = bind_bus n d i (regs_upd n (\<lambda>x. AList.update ''fun'' (Str F)
              (AList.update ''dev'' (Str D) (AList.update ''bus'' (Str B) x))) s)"
    using assms(5-8) by (rule bind_device_found)
  then show ?thesis
    using assms(1-4)
    by (auto simp add: get_register_def_def m_defs reg_lookup_def getitem_def has_key_def)
qed



lemma resolve4_idem:
  "AList.update ''bus'' c (AList.update ''fun'' f (AList.update ''dev'' d (AList.update ''bus'' b
     (AList.update ''bus'' c (AList.update ''fun'' f (AList.update ''dev'' d
        (AList.update ''bus'' b x)))))))
   = AList.update ''bus'' c (AList.update ''fun'' f (AList.update ''dev'' d
        (AList.update ''bus'' b x)))"
  by (simp add: AList.update_triv AList.update_conv')





subsection \<open>Field insertion and extraction\<close>


lemma parse4: "parse_int 10 ''4'' = Some 4"
  by code_simp




subsection \<open>The frame of a register access\<close>

lemma store_frame_refl: "store_frame K n s s"
  by (simp add: store_frame_def)

lemma store_frame_trans:
  "store_frame K n s s1 \<Longrightarrow> store_frame K n s1 s2 \<Longrightarrow> store_frame K n s s2"
  by (simp add: store_frame_def)

lemma store_frame_log: "store_frame K n s (s\<lparr>hal_log := l\<rparr>)"
  by (simp add: store_frame_def reg_item_def)

lemma store_frame_regs_upd:
  assumes "\<And>x k. k \<notin> K \<Longrightarrow> map_of (U x) k = map_of x k"
  shows "store_frame K n s (regs_upd n U s)"
  using assms
  by (auto simp add: store_frame_def regs_upd_sel map_fst_map_entry map_of_map_entry_other
      reg_item_def map_of_map_entry_same split: option.splits)

lemma m_inv_I: "(\<And>s. P s (snd (m s))) \<Longrightarrow> m_inv P m"
  by (simp add: m_inv_def)

lemma m_inv_D: "m_inv P m \<Longrightarrow> P s (snd (m s))"
  by (simp add: m_inv_def)

lemma m_inv_return: "m_inv (store_frame K n) (m_return x)"
  by (simp add: m_inv_def m_return_def store_frame_refl)

lemma m_inv_lift: "m_inv (store_frame K n) (m_lift r)"
  by (simp add: m_inv_def m_lift_def store_frame_refl)

lemma m_inv_bind:
  assumes "m_inv (store_frame K n) m" and "\<And>x. m_inv (store_frame K n) (f x)"
  shows "m_inv (store_frame K n) (m_bind m f)"
proof (rule m_inv_I)
  fix s
  obtain r s1 where ms: "m s = (r, s1)" by (cases "m s")
  have a: "store_frame K n s s1" using m_inv_D [OF assms(1), of s] ms by simp
  show "store_frame K n s (snd (m_bind m f s))"
  proof (cases r)
    case (Inl e)
    then show ?thesis using ms a by (simp add: m_bind_def)
  next
    case (Inr x)
    have "store_frame K n s1 (snd (f x s1))" by (rule m_inv_D [OF assms(2)])
    with a have "store_frame K n s (snd (f x s1))" by (rule store_frame_trans)
    then show ?thesis using ms Inr by (simp add: m_bind_def)
  qed
qed

lemma m_inv_if:
  "m_inv P a \<Longrightarrow> m_inv P b \<Longrightarrow> m_inv P (if c then a else b)"
  by simp

lemma m_inv_case_prod:
  "(\<And>a b. m_inv P (f a b)) \<Longrightarrow> m_inv P (\<lambda>s. (case p of (a, b) \<Rightarrow> f a b) s)"
  by (simp add: m_inv_def split: prod.splits)

lemma m_inv_hal:
  "m_inv (store_frame K n) (hal_rd T a)"
  "m_inv (store_frame K n) (hal_wr T a)"
  "m_inv (store_frame K n) (hal_rd_msr T a)"
  by (simp_all add: m_inv_def hal_rd_def hal_wr_def hal_rd_msr_def store_frame_log)

lemma m_inv_reg_lookup: "m_inv (store_frame K n) (reg_lookup m)"
  by (simp add: m_inv_def reg_lookup_def store_frame_refl)

lemma m_inv_reg_setitem: "k \<in> K \<Longrightarrow> m_inv (store_frame K n) (reg_setitem n k v)"
  by (auto simp add: m_inv_def reg_setitem_def AList.update_conv' intro!: store_frame_regs_upd)

lemma m_inv_bind_bus: "''bus'' \<in> K \<Longrightarrow> m_inv (store_frame K n) (bind_bus n d i)"
  by (auto simp add: m_inv_def bind_bus_cases store_frame_refl AList.update_conv'
      split: option.splits sum.splits intro!: store_frame_regs_upd)

lemma m_inv_bind_device:
  assumes "{''bus'', ''dev'', ''fun''} \<subseteq> K"
  shows "m_inv (store_frame K n) (bind_device n d i)"
proof (rule m_inv_I)
  fix s
  show "store_frame K n s (snd (bind_device n d i s))"
  proof (cases "map_of (CONFIG_PCI (Cfg s)) d")
    case None
    then show ?thesis by (simp add: bind_device_def store_frame_refl)
  next
    case (Some dev)
    have "m_inv (store_frame K n)
       (m_bind (m_lift (getitem dev ''bus'')) (\<lambda>b.
          m_bind (reg_setitem n ''bus'' (Str b)) (\<lambda>_.
          m_bind (m_lift (getitem dev ''dev'')) (\<lambda>d'.
          m_bind (reg_setitem n ''dev'' (Str d')) (\<lambda>_.
          m_bind (m_lift (getitem dev ''fun'')) (\<lambda>f.
          m_bind (reg_setitem n ''fun'' (Str f)) (\<lambda>_.
          bind_bus n d i)))))))"
      using assms
      by (intro m_inv_bind m_inv_lift m_inv_reg_setitem m_inv_bind_bus) auto
    then show ?thesis
      using Some by (simp add: bind_device_def m_inv_def)
  qed
qed

lemma m_inv_get_register_def:
  assumes "{''bus'', ''dev'', ''fun''} \<subseteq> K"
  shows "m_inv (store_frame K n) (get_register_def n i)"
  unfolding get_register_def_def
  by (intro m_inv_bind m_inv_lift m_inv_reg_lookup m_inv_if m_inv_return)
     (auto split: pyval.splits intro!: m_inv_bind_device [OF assms] m_inv_return m_inv_lift)

lemma m_inv_read_register:
  assumes "{''bus'', ''dev'', ''fun''} \<subseteq> K"
  shows "m_inv (store_frame K n) (read_register T n c i)"
  unfolding read_register_def
  by (intro m_inv_bind m_inv_lift m_inv_if m_inv_return m_inv_hal m_inv_case_prod
      m_inv_get_register_def [OF assms])

lemma m_inv_write_register:
  assumes "{''bus'', ''dev'', ''fun''} \<subseteq> K"
  shows "m_inv (store_frame K n) (write_register T n v c i)"
  unfolding write_register_def
  by (intro m_inv_bind m_inv_lift m_inv_if m_inv_return m_inv_hal m_inv_case_prod
      m_inv_get_register_def [OF assms])


lemma fields_upd_other: "k' \<noteq> ''FIELDS'' \<Longrightarrow> map_of (fields_upd f k v x) k' = map_of x k'"
  by (simp add: fields_upd_def map_of_map_entry_other)

lemma m_inv_field_setitem:
  assumes "''FIELDS'' \<in> K"
  shows "m_inv (store_frame K n) (field_setitem n f k v)"
proof (rule m_inv_I)
  fix s
  have "map_of (fields_upd f k v x) k' = map_of x k'" if "k' \<notin> K" for x k'
    using that assms by (intro fields_upd_other) auto
  then show "store_frame K n s (snd (field_setitem n f k v s))"
    by (simp add: field_setitem_def store_frame_regs_upd)
qed

lemma m_inv_field_getitem: "m_inv (store_frame K n) (field_getitem n f k)"
  unfolding field_getitem_def
  by (intro m_inv_bind m_inv_lift m_inv_reg_lookup)

lemma m_inv_dict_field_step:
  "''FIELDS'' \<in> K \<Longrightarrow> m_inv (store_frame K n) (dict_field_step n rv f)"
  unfolding dict_field_step_def
  by (intro m_inv_bind m_inv_lift m_inv_field_getitem m_inv_field_setitem)

lemma m_inv_foreach:
  "(\<And>x. m_inv (store_frame K n) (body x)) \<Longrightarrow> m_inv (store_frame K n) (m_foreach body xs)"
  by (induction xs) (auto intro: m_inv_return m_inv_bind)

lemma m_inv_read_register_dict:
  assumes "{''bus'', ''dev'', ''fun'', ''value'', ''FIELDS''} \<subseteq> K"
  shows "m_inv (store_frame K n) (read_register_dict T n)"
proof -
  have K: "{''bus'', ''dev'', ''fun''} \<subseteq> K" "''value'' \<in> K" "''FIELDS'' \<in> K"
    using assms by auto
  have loop: "m_inv (store_frame K n)
     (case fields of
        Dict fl \<Rightarrow> m_foreach (dict_field_step n rv) (map fst fl)
      | Str cs \<Rightarrow> if cs = [] then m_return () else m_lift (Inl TypeError)
      | Num k \<Rightarrow> m_lift (Inl TypeError))" for fields rv
    by (cases fields)
       (auto intro: m_inv_foreach m_inv_dict_field_step [OF K(3)] m_inv_return m_inv_lift)
  show ?thesis
    unfolding read_register_dict_def
    by (intro m_inv_bind m_inv_lift m_inv_reg_lookup m_inv_read_register [OF K(1)]
        m_inv_get_register_def [OF K(1)] m_inv_reg_setitem [OF K(2)] loop)
qed

lemma demo_resolution:
  "get_register_def ''PCI0.0.0_REMAPBASE'' 0 demo_store =
     (Inr [(''type'', Str ''pcicfg''), (''device'', Str ''HOSTCTRL''), (''offset'', Str ''0x90''),
           (''size'', Str ''8''), (''desc'', Str ''Memory Remap Base Address''),
           (''bus'', Str ''0''), (''dev'', Str ''0''), (''fun'', Str ''0'')],
      regs_upd ''PCI0.0.0_REMAPBASE''
        (\<lambda>x. AList.update ''fun'' (Str ''0'') (AList.update ''dev'' (Str ''0'')
               (AList.update ''bus'' (Str ''0'') x))) demo_store)"
proof -
  have "get_register_def ''PCI0.0.0_REMAPBASE'' 0 demo_store =
     m_bind (bind_bus ''PCI0.0.0_REMAPBASE'' ''HOSTCTRL'' 0)
       (\<lambda>_. reg_lookup ''PCI0.0.0_REMAPBASE'')
       (regs_upd ''PCI0.0.0_REMAPBASE''
        (\<lambda>x. AList.update ''fun'' (Str ''0'') (AList.update ''dev'' (Str ''0'')
               (AList.update ''bus'' (Str ''0'') x))) demo_store)"
    by (rule get_register_def_bound [where ty = "Str ''pcicfg''"
          and dev = "[(''bus'', ''0''), (''dev'', ''0''), (''fun'', ''0''), (''vid'', ''0x8086'')]"
          and rd = "[(''type'', Str ''pcicfg''), (''device'', Str ''HOSTCTRL''),
                     (''offset'', Str ''0x90''), (''size'', Str ''8''),
                     (''desc'', Str ''Memory Remap Base Address'')]"])
       (simp_all add: demo_store_def Chipset_init_def Cfg_init_def)
  then show ?thesis
    by (simp add: bind_bus_cases regs_upd_sel m_bind_def reg_lookup_def getitem_def
        demo_store_def Chipset_init_def Cfg_init_def)
qed

text \<open>
  Claim C6, as amended. A register access (\<^verbatim>\<open>get_register_def\<close>, \<^verbatim>\<open>read_register\<close>,
  \<^verbatim>\<open>write_register\<close>, \<^verbatim>\<open>read_register_dict\<close>), whether it returns or raises, adds no
  name to and removes none from any category, leaves the devices, the BARs, the memory
  ranges, the controls and the bus bindings as they were, and changes no register
  descriptor but the one it names. In that descriptor the first three can change only
  the items \<^verbatim>\<open>bus\<close>, \<^verbatim>\<open>dev\<close> and \<^verbatim>\<open>fun\<close> (the resolved address, written by
  \<^verbatim>\<open>get_register_def\<close>); \<^verbatim>\<open>read_register_dict\<close> can change \<^verbatim>\<open>value\<close> and \<^verbatim>\<open>FIELDS\<close>
  as well.
\<close>

theorem register_access_frame:
  "store_frame {''bus'', ''dev'', ''fun''} n s (snd (get_register_def n i s))
   \<and> store_frame {''bus'', ''dev'', ''fun''} n s (snd (read_register T n c i s))
   \<and> store_frame {''bus'', ''dev'', ''fun''} n s (snd (write_register T n v c i s))
   \<and> store_frame {''bus'', ''dev'', ''fun'', ''value'', ''FIELDS''} n s
        (snd (read_register_dict T n s))"
  using m_inv_get_register_def [of "{''bus'', ''dev'', ''fun''}" n i]
    m_inv_read_register [of "{''bus'', ''dev'', ''fun''}" n T c i]
    m_inv_write_register [of "{''bus'', ''dev'', ''fun''}" n T v c i]
    m_inv_read_register_dict [of "{''bus'', ''dev'', ''fun'', ''value'', ''FIELDS''}" n T]
  by (simp add: m_inv_def)

theorem register_access_frame_witness:
  "store_frame {''bus'', ''dev'', ''fun''} ''PCI0.0.0_REMAPBASE'' demo_store
     (snd (read_register quiet_transport ''PCI0.0.0_REMAPBASE'' 0 0 demo_store))
   \<and> reg_item (snd (read_register quiet_transport ''PCI0.0.0_REMAPBASE'' 0 0 demo_store))
        ''PCI0.0.0_REMAPBASE'' ''offset'' = Some (Str ''0x90'')
   \<and> map_of (REGISTERS (Cfg
        (snd (read_register quiet_transport ''PCI0.0.0_REMAPBASE'' 0 0 demo_store))))
        ''IA32_FEATURE_CONTROL'' = map_of (REGISTERS (Cfg demo_store)) ''IA32_FEATURE_CONTROL''"
proof -
  have f: "store_frame {''bus'', ''dev'', ''fun''} ''PCI0.0.0_REMAPBASE'' demo_store
     (snd (read_register quiet_transport ''PCI0.0.0_REMAPBASE'' 0 0 demo_store))"
    using register_access_frame [of "''PCI0.0.0_REMAPBASE''" demo_store 0 quiet_transport 0 0]
    by simp
  have "reg_item demo_store ''PCI0.0.0_REMAPBASE'' ''offset'' = Some (Str ''0x90'')"
    by (simp add: reg_item_def demo_store_def Chipset_init_def Cfg_init_def)
  with f show ?thesis
    by (simp add: store_frame_def)
qed


text \<open>
  The descriptors are not read-only: resolving a register of a declared device writes
  the address of the device into the stored descriptor of the register.
\<close>

theorem register_access_mutates_descriptor:
  "reg_item demo_store ''PCI0.0.0_REMAPBASE'' ''bus'' = None
   \<and> reg_item (snd (get_register_def ''PCI0.0.0_REMAPBASE'' 0 demo_store))
        ''PCI0.0.0_REMAPBASE'' ''bus'' = Some (Str ''0'')
   \<and> Cfg (snd (get_register_def ''PCI0.0.0_REMAPBASE'' 0 demo_store)) \<noteq> Cfg demo_store"
proof -
  have a: "reg_item demo_store ''PCI0.0.0_REMAPBASE'' ''bus'' = None"
    by (simp add: reg_item_def demo_store_def Chipset_init_def Cfg_init_def)
  have b: "reg_item (snd (get_register_def ''PCI0.0.0_REMAPBASE'' 0 demo_store))
        ''PCI0.0.0_REMAPBASE'' ''bus'' = Some (Str ''0'')"
    unfolding demo_resolution
    by (simp add: reg_item_def regs_upd_sel demo_store_def Chipset_init_def Cfg_init_def)
  from a b have "Cfg (snd (get_register_def ''PCI0.0.0_REMAPBASE'' 0 demo_store)) \<noteq> Cfg demo_store"
    by (auto simp add: reg_item_def)
  with a b show ?thesis by simp
qed

subsection \<open>Registers of eight bytes in PCI configuration space\<close>










lemma last_dword_write_append:
  "last_dword_write (rev (h @ [pci_write_dword b d f off v])) b d f off = Some v"
  by simp









subsection \<open>Controls\<close>

lemma demo_msr_resolution:
  "get_register_def ''IA32_FEATURE_CONTROL'' i demo_store =
     (Inr [(''type'', Str ''msr''), (''msr'', Str ''0x3A''), (''size'', Str ''0x4''),
           (''desc'', Str ''Processor Feature Control''),
           (''FIELDS'', Dict [(''EN_VMX'', Dict [(''bit'', Str ''4''), (''size'', Str ''4''),
                                                (''desc'', Str [])])])], demo_store)"
  by (rule get_register_def_plain [where ty = "Str ''msr''"])
     (simp_all add: demo_store_def Chipset_init_def Cfg_init_def)

lemma demo_msr_resolution_log:
  "get_register_def ''IA32_FEATURE_CONTROL'' i (demo_store\<lparr>hal_log := l\<rparr>) =
     (Inr [(''type'', Str ''msr''), (''msr'', Str ''0x3A''), (''size'', Str ''0x4''),
           (''desc'', Str ''Processor Feature Control''),
           (''FIELDS'', Dict [(''EN_VMX'', Dict [(''bit'', Str ''4''), (''size'', Str ''4''),
                                                (''desc'', Str [])])])],
      demo_store\<lparr>hal_log := l\<rparr>)"
  by (rule get_register_def_plain [where ty = "Str ''msr''"])
     (simp_all add: demo_store_def Chipset_init_def Cfg_init_def)

lemma parse3A: "parse_int 16 ''0x3A'' = Some 58"
  by code_simp

lemma demo_msr_read:
  "read_register quiet_transport ''IA32_FEATURE_CONTROL'' c 0 demo_store
     = (Inr 0, demo_store\<lparr>hal_log := [read_msr c 58]\<rparr>)"
  by (simp add: read_register_def m_defs demo_msr_resolution getitem_def attr16_def parse3A
      hal_rd_msr_def quiet_transport_def)
     (simp add: demo_store_def Chipset_init_def)

lemma demo_msr_write:
  "write_register quiet_transport ''IA32_FEATURE_CONTROL'' v c 0 (demo_store\<lparr>hal_log := l\<rparr>)
     = (Inr (), demo_store\<lparr>hal_log := l @ [write_msr c 58 (v AND 0xFFFFFFFF)
                                              (drop_bit 32 v AND 0xFFFFFFFF)]\<rparr>)"
  by (simp add: write_register_def m_defs demo_msr_resolution_log getitem_def attr16_def parse3A
      hal_wr_def quiet_transport_def)

lemma demo_field:
  "field_attrs ''IA32_FEATURE_CONTROL'' ''EN_VMX'' (demo_store\<lparr>hal_log := l\<rparr>) =
     (Inr (Dict [(''bit'', Str ''4''), (''size'', Str ''4''), (''desc'', Str [])]),
      demo_store\<lparr>hal_log := l\<rparr>)"
  by (simp add: field_attrs_def m_defs demo_msr_resolution_log getitem_def)

lemma demo_field_bit_mask:
  "field_bit_mask (Dict [(''bit'', Str ''4''), (''size'', Str ''4''), (''desc'', Str [])])
     = Inr (4, 15)"
  by (simp add: field_bit_mask_def getitem_def parse4 py_lshift_def)

lemma demo_controls:
  "getitem (CONTROLS (Cfg demo_store)) ''VmxEnable''
     = Inr [(''register'', ''IA32_FEATURE_CONTROL''), (''field'', ''EN_VMX'')]"
  by (simp add: getitem_def demo_store_def Chipset_init_def Cfg_init_def)

lemma demo_control_items:
  "getitem [(''register'', ''IA32_FEATURE_CONTROL''), (''field'', ''EN_VMX'')] ''register''
     = Inr ''IA32_FEATURE_CONTROL''"
  "getitem [(''register'', ''IA32_FEATURE_CONTROL''), (''field'', ''EN_VMX'')] ''field''
     = Inr ''EN_VMX''"
  by (simp_all add: getitem_def)

text \<open>
  Claim C7. A control is to pass through to the field-level read and write with the given
  thread index. The code does not: \<^verbatim>\<open>get_control\<close> reads the register on thread 0
  whatever the index, and \<^verbatim>\<open>set_control\<close> hands the index to
  \<^verbatim>\<open>write_register_field\<close> in the place of \<^verbatim>\<open>preserve_field_position\<close>. For the control
  of a field at bit 4 of width 4 in a model-specific register and thread 1: the read
  goes to thread 0 where the field-level read goes to thread 1; writing 3 reads and
  writes thread 0 and stores \<^verbatim>\<open>3 & (0xF << 4) = 0\<close>, where the field-level write on
  thread 1 stores \<^verbatim>\<open>3 << 4 = 0x30\<close>.
\<close>

theorem control_thread_index_not_passed:
  "get_control quiet_transport ''VmxEnable'' 1 demo_store
     = (Inr 0, demo_store\<lparr>hal_log := [read_msr 0 0x3A]\<rparr>)
   \<and> read_register_field quiet_transport ''IA32_FEATURE_CONTROL'' ''EN_VMX'' False 1 demo_store
     = (Inr 0, demo_store\<lparr>hal_log := [read_msr 1 0x3A]\<rparr>)
   \<and> set_control quiet_transport ''VmxEnable'' 3 1 demo_store
     = (Inr (), demo_store\<lparr>hal_log := [read_msr 0 0x3A, write_msr 0 0x3A 0 0]\<rparr>)
   \<and> write_register_field quiet_transport ''IA32_FEATURE_CONTROL'' ''EN_VMX'' 3 False 1
        demo_store
     = (Inr (), demo_store\<lparr>hal_log := [read_msr 1 0x3A, write_msr 1 0x3A 0x30 0]\<rparr>)"
proof -
  have g: "get_control quiet_transport ''VmxEnable'' 1 demo_store
     = (Inr 0, demo_store\<lparr>hal_log := [read_msr 0 0x3A]\<rparr>)"
    by (simp add: get_control_def m_defs demo_controls demo_control_items demo_msr_read
        get_register_field_def demo_field demo_field_bit_mask py_rshift_def)
  have r: "read_register_field quiet_transport ''IA32_FEATURE_CONTROL'' ''EN_VMX'' False 1
             demo_store = (Inr 0, demo_store\<lparr>hal_log := [read_msr 1 0x3A]\<rparr>)"
    by (simp add: read_register_field_def m_defs demo_msr_read
        get_register_field_def demo_field demo_field_bit_mask py_rshift_def)
  have s: "set_control quiet_transport ''VmxEnable'' 3 1 demo_store
     = (Inr (), demo_store\<lparr>hal_log := [read_msr 0 0x3A, write_msr 0 0x3A 0 0]\<rparr>)"
    by (simp add: set_control_def write_register_field_def m_defs demo_controls
        demo_control_items
        demo_msr_read set_register_field_def demo_field demo_field_bit_mask py_lshift_def
        demo_msr_write)
  have w: "write_register_field quiet_transport ''IA32_FEATURE_CONTROL'' ''EN_VMX'' 3 False 1
        demo_store
     = (Inr (), demo_store\<lparr>hal_log := [read_msr 1 0x3A, write_msr 1 0x3A 0x30 0]\<rparr>)"
    by (simp add: write_register_field_def m_defs
        demo_msr_read set_register_field_def demo_field demo_field_bit_mask py_lshift_def
        demo_msr_write)
  from g r s w show ?thesis by simp
qed

subsection \<open>Bus bindings\<close>

lemma set_alist_update: "set (AList.update k v al) \<subseteq> insert (k, v) (set al)"
  by (induction al) auto












subsection \<open>What loading the configuration leaves of the identity\<close>

text \<open>
  A component \<open>I\<close> of the session that depends neither on the store nor on the access
  history is the same after \<^verbatim>\<open>init_cfg\<close> as before.
\<close>

lemma keep_return: "m_inv (\<lambda>s s'. I s' = I s) (m_return x)"
  by (simp add: m_inv_def m_return_def)

lemma keep_lift: "m_inv (\<lambda>s s'. I s' = I s) (m_lift r)"
  by (simp add: m_inv_def m_lift_def)

lemma keep_bind:
  assumes "m_inv (\<lambda>s s'. I s' = I s) m" and "\<And>x. m_inv (\<lambda>s s'. I s' = I s) (f x)"
  shows "m_inv (\<lambda>s s'. I s' = I s) (m_bind m f)"
proof (rule m_inv_I)
  fix s
  obtain r s1 where ms: "m s = (r, s1)" by (cases "m s")
  have a: "I s1 = I s" using m_inv_D [OF assms(1), of s] ms by simp
  show "I (snd (m_bind m f s)) = I s"
  proof (cases r)
    case (Inl e)
    then show ?thesis using ms a by (simp add: m_bind_def)
  next
    case (Inr x)
    have "I (snd (f x s1)) = I s1" by (rule m_inv_D [OF assms(2)])
    then show ?thesis using ms Inr a by (simp add: m_bind_def)
  qed
qed

lemma keep_fold:
  assumes "\<And>x acc. m_inv (\<lambda>s s'. I s' = I s) (f x acc)"
  shows "m_inv (\<lambda>s s'. I s' = I s) (m_fold f xs acc)"
  by (induction xs arbitrary: acc) (auto intro: keep_return keep_bind assms)

lemma keep_foreach:
  assumes "\<And>x. m_inv (\<lambda>s s'. I s' = I s) (body x)"
  shows "m_inv (\<lambda>s s'. I s' = I s) (m_foreach body xs)"
  by (induction xs) (auto intro: keep_return keep_bind assms)

lemma keep_load_entry:
  assumes "\<And>s c. I (s\<lparr>Cfg := c\<rparr>) = I s"
  shows "m_inv (\<lambda>s s'. I s' = I s) (load_entry upd pe vis)"
  by (auto simp add: m_inv_def load_entry_def assms split: sum.splits)

lemma keep_load_register:
  assumes "\<And>s c. I (s\<lparr>Cfg := c\<rparr>) = I s"
  shows "m_inv (\<lambda>s s'. I s' = I s) (load_register pe vis)"
  by (auto simp add: m_inv_def load_register_def assms split: sum.splits)

lemma keep_load_section:
  assumes "\<And>s c. I (s\<lparr>Cfg := c\<rparr>) = I s"
  shows "m_inv (\<lambda>s s'. I s' = I s) (load_section pe vis)"
  unfolding load_section_def
  by (intro keep_bind keep_fold keep_load_entry keep_load_register assms)

lemma keep_init_cfg_xml:
  assumes "\<And>s c. I (s\<lparr>Cfg := c\<rparr>) = I s"
  shows "m_inv (\<lambda>s s'. I s' = I s) (init_cfg_xml H x chip pch)"
proof (cases "xml_file H x")
  case None
  then show ?thesis by (simp add: init_cfg_xml_def keep_return)
next
  case (Some r)
  show ?thesis
  proof (cases r)
    case (Inl e)
    then show ?thesis using Some by (simp add: init_cfg_xml_def keep_lift)
  next
    case (Inr root)
    then show ?thesis
      using Some
      by (auto simp add: init_cfg_xml_def
          intro!: keep_bind keep_fold keep_return keep_load_section assms)
  qed
qed

lemma keep_bus_step:
  assumes "\<And>s c. I (s\<lparr>Cfg := c\<rparr>) = I s"
  shows "m_inv (\<lambda>s s'. I s' = I s) (bus_step E x)"
  by (auto simp add: m_inv_def bus_step_def assms split: sum.splits option.splits)

lemma keep_init_cfg_bus:
  assumes "\<And>s c. I (s\<lparr>Cfg := c\<rparr>) = I s" and "\<And>s l. I (s\<lparr>hal_log := l\<rparr>) = I s"
  shows "m_inv (\<lambda>s s'. I s' = I s) (init_cfg_bus T)"
proof (rule m_inv_I)
  fix s
  show "I (snd (init_cfg_bus T s)) = I s"
    using m_inv_D [OF keep_foreach [of I "bus_step E" for E, OF keep_bus_step [OF assms(1)]]]
    by (simp add: init_cfg_bus_def Let_def assms(2))
qed

lemma keep_init_xml_configuration:
  assumes "\<And>s c. I (s\<lparr>Cfg := c\<rparr>) = I s" and "\<And>s l. I (s\<lparr>hal_log := l\<rparr>) = I s"
  shows "I (snd (init_xml_configuration H T s)) = I s"
proof -
  have a: "m_inv (\<lambda>s s'. I s' = I s) (\<lambda>s'. init_cfg_xml H x (code s') (pch_code s') s')" for x
    using keep_init_cfg_xml [OF assms(1), of H x] by (simp add: m_inv_def)
  have b: "m_inv (\<lambda>s s'. I s' = I s)
             (\<lambda>s'. (Inr () :: error + unit, s'\<lparr>Cfg := (Cfg s')\<lparr>XML_CONFIG_LOADED := True\<rparr>\<rparr>))"
    by (simp add: m_inv_def assms(1))
  have "m_inv (\<lambda>s s'. I s' = I s)
     (m_bind (m_foreach (\<lambda>x s'. init_cfg_xml H x (code s') (pch_code s') s') fs) (\<lambda>_.
      m_bind (init_cfg_bus T) (\<lambda>_ s'.
       (Inr (), s'\<lparr>Cfg := (Cfg s')\<lparr>XML_CONFIG_LOADED := True\<rparr>\<rparr>))))" for fs
    by (intro keep_bind keep_foreach a b keep_init_cfg_bus assms)
  then show ?thesis
    by (simp add: m_inv_def init_xml_configuration_def)
qed

lemma keep_init_cfg:
  assumes "\<And>s c. I (s\<lparr>Cfg := c\<rparr>) = I s" and "\<And>s l. I (s\<lparr>hal_log := l\<rparr>) = I s"
  shows "I (snd (init_cfg H T s)) = I s"
  by (auto simp add: init_cfg_def keep_init_xml_configuration [OF assms] assms(1)
      split: import_outcome.splits)

lemma init_cfg_result:
  "fst (init_cfg H T s) =
     (if code s \<noteq> [] then (case platform_module H (code s) of ModuleRaises e \<Rightarrow> Inl e | _ \<Rightarrow> Inr ())
      else Inr ())"
  by (auto simp add: init_cfg_def split: import_outcome.splits)

subsection \<open>The catalog and the identification\<close>

lemma dict_fold_keys:
  "distinct (map fst acc) \<Longrightarrow>
     distinct (map fst (foldl (\<lambda>d kv. AList.update (fst kv) (snd kv) d) acc ps))"
  by (induction ps arbitrary: acc) (simp_all add: distinct_update)

lemma dict_of_distinct: "distinct (map fst (dict_of ps))"
  by (simp add: dict_of_def dict_fold_keys)

lemma dict_fold_set:
  "set (foldl (\<lambda>d kv. AList.update (fst kv) (snd kv) d) acc ps) \<subseteq> set acc \<union> set ps"
proof (induction ps arbitrary: acc)
  case Nil
  then show ?case by simp
next
  case (Cons p ps)
  show ?case
    using Cons.IH [of "AList.update (fst p) (snd p) acc"] set_alist_update [of "fst p" "snd p" acc]
    by auto
qed

lemma dict_of_set: "set (dict_of ps) \<subseteq> set ps"
  using dict_fold_set [of "[]" ps] by (simp add: dict_of_def)

lemma Chipset_Code_entry:
  assumes "map_of Chipset_Code pc = Some d"
  shows "\<exists>e. map_of Chipset_Dictionary d = Some e \<and> e_code e = pc"
proof -
  have "(pc, d) \<in> set Chipset_Code" using assms by (rule map_of_SomeD)
  then have "(pc, d) \<in> set (map (\<lambda>kv. (e_code (snd kv), fst kv)) Chipset_Dictionary)"
    using dict_of_set unfolding Chipset_Code_def by blast
  then obtain e where e: "(d, e) \<in> set Chipset_Dictionary" "e_code e = pc" by auto
  have "map_of Chipset_Dictionary d = Some e"
    using e(1) dict_of_distinct [of Chipset_Dictionary_items]
    by (simp add: Chipset_Dictionary_def)
  then show ?thesis using e(2) by blast
qed

lemma invalid_did_not_in_catalog: "map_of Chipset_Dictionary 0xFFFF = None"
proof -
  have "0xFFFF \<notin> fst ` set Chipset_Dictionary_items"
    by (simp add: Chipset_Dictionary_items_def)
  then have "0xFFFF \<notin> fst ` set Chipset_Dictionary"
    using dict_of_set [of Chipset_Dictionary_items] unfolding Chipset_Dictionary_def by blast
  then show ?thesis by (simp add: map_of_eq_None_iff)
qed

lemma identify_chipset_known:
  assumes "map_of Chipset_Code pc = Some d"
  shows "\<exists>e. map_of Chipset_Dictionary d = Some e \<and> e_code e = pc
           \<and> identify_chipset (Some pc) s =
               (False, s\<lparr>vid := VID_INTEL, did := d, rid := 0, code := lower pc,
                          longname := e_longname e, id' := e_id e\<rparr>)"
proof -
  obtain e where e: "map_of Chipset_Dictionary d = Some e" "e_code e = pc"
    using Chipset_Code_entry [OF assms] by blast
  have "identify_chipset (Some pc) s =
          (False, s\<lparr>vid := VID_INTEL, did := d, rid := 0, code := lower pc,
                     longname := e_longname e, id' := e_id e\<rparr>)"
    using assms e by (simp add: identify_chipset_def)
  then show ?thesis using e by blast
qed

lemma identify_chipset_unknown:
  assumes "map_of Chipset_Code pc = None"
  shows "identify_chipset (Some pc) s =
           (True, s\<lparr>vid := 0xFFFF, did := 0xFFFF, rid := 0xFF, longname := ''UnknownPlatform''\<rparr>)"
  using assms by (simp add: identify_chipset_def invalid_did_not_in_catalog)

lemma identify_chipset_flag:
  assumes "identify_chipset pc s = (u, s2)"
  shows "u = (vid s2 \<noteq> VID_INTEL \<or> map_of Chipset_Dictionary (did s2) = None)"
  using assms
  by (auto simp add: identify_chipset_def VID_INTEL_def split: option.splits)

lemma identify_pch_identity:
  "vid (identify_pch ppc s) = vid s" "did (identify_pch ppc s) = did s"
  "rid (identify_pch ppc s) = rid s" "code (identify_pch ppc s) = code s"
  "longname (identify_pch ppc s) = longname s"
  by (simp_all add: identify_pch_def Let_def split: option.splits)

lemma init_cfg_identity:
  "vid (snd (init_cfg H T s)) = vid s" "did (snd (init_cfg H T s)) = did s"
  "rid (snd (init_cfg H T s)) = rid s" "code (snd (init_cfg H T s)) = code s"
  "longname (snd (init_cfg H T s)) = longname s"
  by (rule keep_init_cfg; simp)+

lemma detect_ids_code: "code (snd (detect_ids H T dev s)) = code s"
  by (simp add: detect_ids_def hal_rd_def split: sum.splits prod.splits)

lemma detect_platform_code: "code (snd (detect_platform H T s)) = code s"
  by (simp add: detect_platform_def detect_ids_code split: prod.splits)
    (metis detect_ids_code snd_conv)

lemma init_unfold:
  assumes "helper_start H = None"
  obtains s0 u s2 where
    "code s0 = code s"
    "identify_chipset pc s0 = (u, s2)"
    "fst (init H T pc ppc sd s) =
       (case fst (init_cfg H T (identify_pch ppc s2)) of
          Inl e \<Rightarrow> Inl e
        | Inr x \<Rightarrow> if u \<and> sd then Inl UnknownChipsetError else Inr ())"
    "snd (init H T pc ppc sd s) = snd (init_cfg H T (identify_pch ppc s2))"
proof -
  obtain v d r pv pd pr s1 where dp: "detect_platform H T s = (((v, d, r), (pv, pd, pr)), s1)"
    by (cases "detect_platform H T s") auto
  define s0 where "s0 = s1\<lparr>vid := v, did := d, rid := r, pch_vid := pv, pch_did := pd, pch_rid := pr\<rparr>"
  obtain u s2 where ic: "identify_chipset pc s0 = (u, s2)" by (cases "identify_chipset pc s0")
  have c: "code s0 = code s"
    using detect_platform_code [of H T s] dp by (simp add: s0_def)
  obtain r3 s3 where i3: "init_cfg H T (identify_pch ppc s2) = (r3, s3)"
    by (cases "init_cfg H T (identify_pch ppc s2)")
  have a: "fst (init H T pc ppc sd s) =
       (case fst (init_cfg H T (identify_pch ppc s2)) of
          Inl e \<Rightarrow> Inl e
        | Inr x \<Rightarrow> if u \<and> sd then Inl UnknownChipsetError else Inr ())"
    using assms dp ic i3 by (simp add: init_def s0_def [symmetric] split: sum.splits)
  have b: "snd (init H T pc ppc sd s) = snd (init_cfg H T (identify_pch ppc s2))"
    using assms dp ic i3 by (simp add: init_def s0_def [symmetric] split: sum.splits)
  show thesis using that [OF c ic a b] .
qed

lemma catalog_code_snb: "map_of Chipset_Code ''SNB'' = Some 0x0108"
  by code_simp

lemma catalog_code_zzz: "map_of Chipset_Code ''ZZZ'' = None"
  by code_simp

lemma lower_snb: "lower ''SNB'' = ''snb''"
  by code_simp

lemma init_detected_vid:
  assumes "helper_start H = None"
  shows "vid (snd (init H T None ppc sd s)) = fst (fst (fst (detect_platform H T s)))"
proof -
  obtain v d r pv pd pr s1 where dp: "detect_platform H T s = (((v, d, r), (pv, pd, pr)), s1)"
    by (cases "detect_platform H T s") auto
  define s0 where "s0 = s1\<lparr>vid := v, did := d, rid := r, pch_vid := pv, pch_did := pd, pch_rid := pr\<rparr>"
  obtain u s2 where ic: "identify_chipset None s0 = (u, s2)" by (cases "identify_chipset None s0")
  have v2: "vid s2 = v"
    using ic by (auto simp add: identify_chipset_def s0_def split: option.splits)
  obtain r3 s3 where i3: "init_cfg H T (identify_pch ppc s2) = (r3, s3)"
    by (cases "init_cfg H T (identify_pch ppc s2)")
  have "vid s3 = v"
    using init_cfg_identity(1) [of H T "identify_pch ppc s2"] i3 v2
    by (simp add: identify_pch_identity)
  then show ?thesis
    using assms dp ic i3 by (simp add: init_def s0_def [symmetric] split: sum.splits)
qed

lemma quiet_detection: "fst (fst (fst (detect_platform H quiet_transport s))) = 0"
  by (simp add: detect_platform_def detect_ids_def hal_rd_def quiet_transport_def
      split: prod.splits)

text \<open>
  Claim C8. \<^verbatim>\<open>init\<close> with an explicit chipset code, when \<^verbatim>\<open>helper.start\<close> returns,
  whatever the hardware reads gave. A code of the catalog: the vendor id is 0x8086, the
  device id is the one \<^verbatim>\<open>Chipset_Code\<close> has for the code, the revision is 0; that device
  id is in \<^verbatim>\<open>Chipset_Dictionary\<close> with an entry of this code, whose long name the
  session takes; and \<^verbatim>\<open>init\<close> returns unless the import of the platform module raises.
  A code not in the catalog: vendor id and device id are 0xFFFF, the revision is 0xFF,
  the name is \<^verbatim>\<open>UnknownPlatform\<close>, and with \<^verbatim>\<open>start_driver\<close> the call raises, namely
  \<^verbatim>\<open>UnknownChipsetError\<close> on a session that had no code before.
\<close>

theorem explicit_code_identity:
  assumes "helper_start H = None"
  shows "case map_of Chipset_Code pc of
           Some d \<Rightarrow>
             vid (snd (init H T (Some pc) ppc sd s)) = 0x8086
             \<and> did (snd (init H T (Some pc) ppc sd s)) = d
             \<and> rid (snd (init H T (Some pc) ppc sd s)) = 0
             \<and> code (snd (init H T (Some pc) ppc sd s)) = lower pc
             \<and> (\<exists>e. map_of Chipset_Dictionary d = Some e \<and> e_code e = pc
                    \<and> longname (snd (init H T (Some pc) ppc sd s)) = e_longname e)
             \<and> ((\<forall>e. platform_module H (lower pc) \<noteq> ModuleRaises e)
                  \<longrightarrow> fst (init H T (Some pc) ppc sd s) = Inr ())
         | None \<Rightarrow>
             vid (snd (init H T (Some pc) ppc sd s)) = 0xFFFF
             \<and> did (snd (init H T (Some pc) ppc sd s)) = 0xFFFF
             \<and> rid (snd (init H T (Some pc) ppc sd s)) = 0xFF
             \<and> code (snd (init H T (Some pc) ppc sd s)) = code s
             \<and> longname (snd (init H T (Some pc) ppc sd s)) = ''UnknownPlatform''
             \<and> (sd \<longrightarrow> (\<exists>e. fst (init H T (Some pc) ppc sd s) = Inl e))
             \<and> (sd \<and> code s = [] \<longrightarrow> fst (init H T (Some pc) ppc sd s) = Inl UnknownChipsetError)"
proof -
  obtain s0 u s2 where
    c: "code s0 = code s" and
    ic: "identify_chipset (Some pc) s0 = (u, s2)" and
    a: "fst (init H T (Some pc) ppc sd s) =
       (case fst (init_cfg H T (identify_pch ppc s2)) of
          Inl e \<Rightarrow> Inl e
        | Inr x \<Rightarrow> if u \<and> sd then Inl UnknownChipsetError else Inr ())" and
    b: "snd (init H T (Some pc) ppc sd s) = snd (init_cfg H T (identify_pch ppc s2))"
    using init_unfold [OF assms, where pc = "Some pc" and T = T and ppc = ppc and sd = sd and s = s]
    by metis
  show ?thesis
  proof (cases "map_of Chipset_Code pc")
    case None
    have s2: "u = True"
      "s2 = s0\<lparr>vid := 0xFFFF, did := 0xFFFF, rid := 0xFF, longname := ''UnknownPlatform''\<rparr>"
      using identify_chipset_unknown [OF None, of s0] ic by simp_all
    show ?thesis
      using None a c
      by (auto simp add: b init_cfg_identity identify_pch_identity s2 init_cfg_result
          split: sum.splits import_outcome.splits)
  next
    case (Some d)
    obtain e where e: "map_of Chipset_Dictionary d = Some e" "e_code e = pc"
      and r: "identify_chipset (Some pc) s0 =
               (False, s0\<lparr>vid := VID_INTEL, did := d, rid := 0, code := lower pc,
                          longname := e_longname e, id' := e_id e\<rparr>)"
      using identify_chipset_known [OF Some, of s0] by blast
    have s2: "u = False"
      "s2 = s0\<lparr>vid := VID_INTEL, did := d, rid := 0, code := lower pc,
                          longname := e_longname e, id' := e_id e\<rparr>"
      using r ic by simp_all
    show ?thesis
      using Some a e
      by (auto simp add: b init_cfg_identity identify_pch_identity s2 init_cfg_result VID_INTEL_def
          split: sum.splits import_outcome.splits)
  qed
qed

theorem explicit_code_identity_witness:
  "helper_start bare_host = None
   \<and> map_of Chipset_Code ''SNB'' = Some 0x0108
   \<and> vid (snd (init bare_host quiet_transport (Some ''SNB'') None True Chipset_init)) = 0x8086
   \<and> did (snd (init bare_host quiet_transport (Some ''SNB'') None True Chipset_init)) = 0x0108
   \<and> rid (snd (init bare_host quiet_transport (Some ''SNB'') None True Chipset_init)) = 0
   \<and> code (snd (init bare_host quiet_transport (Some ''SNB'') None True Chipset_init)) = ''snb''
   \<and> fst (init bare_host quiet_transport (Some ''SNB'') None True Chipset_init) = Inr ()
   \<and> map_of Chipset_Code ''ZZZ'' = None
   \<and> vid (snd (init bare_host quiet_transport (Some ''ZZZ'') None True Chipset_init)) = 0xFFFF
   \<and> did (snd (init bare_host quiet_transport (Some ''ZZZ'') None True Chipset_init)) = 0xFFFF
   \<and> rid (snd (init bare_host quiet_transport (Some ''ZZZ'') None True Chipset_init)) = 0xFF
   \<and> fst (init bare_host quiet_transport (Some ''ZZZ'') None True Chipset_init)
       = Inl UnknownChipsetError"
proof -
  have h: "helper_start bare_host = None" by (simp add: bare_host_def)
  have m: "\<forall>c e. platform_module bare_host c \<noteq> ModuleRaises e"
    by (simp add: bare_host_def)
  have c: "code Chipset_init = []" by (simp add: Chipset_init_def)
  show ?thesis
    using explicit_code_identity [OF h, where pc = "''SNB''" and T = quiet_transport
        and ppc = None and sd = True and s = Chipset_init]
      explicit_code_identity [OF h, where pc = "''ZZZ''" and T = quiet_transport
        and ppc = None and sd = True and s = Chipset_init]
    by (simp add: catalog_code_snb catalog_code_zzz h m c lower_snb)
qed

text \<open>
  Claim C9. When \<^verbatim>\<open>helper.start\<close> returns and no import of a platform module raises,
  \<^verbatim>\<open>init\<close> raises \<^verbatim>\<open>UnknownChipsetError\<close> exactly when \<^verbatim>\<open>start_driver\<close> is set and
  the identity it leaves is unmatched: the vendor id is not 0x8086 or the device id is
  not in \<^verbatim>\<open>Chipset_Dictionary\<close>. In every other case it returns.
\<close>

theorem unknown_platform_error:
  assumes "helper_start H = None" and "\<forall>c e. platform_module H c \<noteq> ModuleRaises e"
  shows "fst (init H T pc ppc sd s) =
           (if (vid (snd (init H T pc ppc sd s)) \<noteq> VID_INTEL
                \<or> map_of Chipset_Dictionary (did (snd (init H T pc ppc sd s))) = None) \<and> sd
            then Inl UnknownChipsetError else Inr ())"
proof -
  obtain s0 u s2 where
    ic: "identify_chipset pc s0 = (u, s2)" and
    a: "fst (init H T pc ppc sd s) =
       (case fst (init_cfg H T (identify_pch ppc s2)) of
          Inl e \<Rightarrow> Inl e
        | Inr x \<Rightarrow> if u \<and> sd then Inl UnknownChipsetError else Inr ())" and
    b: "snd (init H T pc ppc sd s) = snd (init_cfg H T (identify_pch ppc s2))"
    using init_unfold [OF assms(1), where pc = pc and T = T and ppc = ppc and sd = sd and s = s]
    by metis
  have ok: "fst (init_cfg H T (identify_pch ppc s2)) = Inr ()"
    using assms(2) by (simp add: init_cfg_result split: import_outcome.splits)
  have u: "u = (vid s2 \<noteq> VID_INTEL \<or> map_of Chipset_Dictionary (did s2) = None)"
    by (rule identify_chipset_flag [OF ic])
  show ?thesis
    by (simp add: a ok b init_cfg_identity identify_pch_identity u)
qed

theorem unknown_platform_error_witness:
  "helper_start bare_host = None
   \<and> (\<forall>c e. platform_module bare_host c \<noteq> ModuleRaises e)
   \<and> vid (snd (init bare_host quiet_transport None None True Chipset_init)) \<noteq> VID_INTEL
   \<and> fst (init bare_host quiet_transport None None True Chipset_init) = Inl UnknownChipsetError
   \<and> fst (init bare_host quiet_transport None None False Chipset_init) = Inr ()"
proof -
  have h: "helper_start bare_host = None" by (simp add: bare_host_def)
  have m: "\<forall>c e. platform_module bare_host c \<noteq> ModuleRaises e"
    by (simp add: bare_host_def)
  show ?thesis
    using unknown_platform_error [OF h m, where pc = None and T = quiet_transport
        and ppc = None and sd = True and s = Chipset_init]
      unknown_platform_error [OF h m, where pc = None and T = quiet_transport
        and ppc = None and sd = False and s = Chipset_init]
    by (simp add: h m init_detected_vid [OF h] quiet_detection VID_INTEL_def)
qed

subsection \<open>Removal and replacement of entries\<close>














end
